theory Spec2Isabelle
  imports Main "HOL-Library.Word"
begin

unbundle bit_operations_syntax

section \<open>AF\_PACKET ring headers: the embedding\<close>

text \<open>
  The source holds two twins of the same header code: the pure Go one (\<open>V1header\<close>,
  \<open>V2header\<close>, \<open>V3header\<close>) and the cgo one (\<open>TpV1Hdr\<close>, \<open>TpV2Hdr\<close>, \<open>TpV3Hdr\<close>),
  whose method bodies are the same text over the kernel's field names. The embedding
  follows the pure Go twin and covers both, except where the twins differ:
  \<open>TpV3Hdr.getVLAN\<close>, embedded on its own below, and \<open>TpV3Hdr.getData\<close> read the
  packet's extension record through another address. \<open>getIfaceIndex\<close>, which reads the
  address record behind a header, is not embedded.

  Integers are those of a 64-bit Linux target: Go's \<open>int\<close>, \<open>uint\<close> and \<open>uintptr\<close> are
  64-bit words. A word is read as a signed number by \<open>sint\<close> and as an unsigned one by
  \<open>unat\<close> or \<open>uint\<close>; arithmetic on words wraps as Go's does.
\<close>

type_synonym byte = "8 word"
type_synonym uint16 = "16 word"
type_synonym uint32 = "32 word"
type_synonym uint64 = "64 word"
type_synonym go_int = "64 word"
type_synonym go_uint = "64 word"
type_synonym uintptr = "64 word"

subsection \<open>Constants\<close>

definition VlanHlen :: nat where
  "VlanHlen = 4"

definition EthAlen :: nat where
  "EthAlen = 6"

definition StatusVlanValid :: uint32 where
  "StatusVlanValid = 0x10"

text \<open>\<open>unix.TPACKET_ALIGNMENT\<close> of golang.org/x/sys/unix, which is 16 on Linux.\<close>

definition tpacketAlignment :: go_uint where
  "tpacketAlignment = 16"

subsection \<open>Alignment\<close>

text \<open>
  \<open>int((uint(x) + tpacketAlignment - 1) &^ (tpacketAlignment - 1))\<close>: the conversions
  between \<open>int\<close> and \<open>uint\<close> keep the bits, and \<open>&^\<close> is \<open>AND NOT\<close>.
\<close>

definition tpAlign :: "go_int \<Rightarrow> go_int" where
  "tpAlign x = (x + tpacketAlignment - 1) AND NOT (tpacketAlignment - 1)"

subsection \<open>Structures\<close>

record V1header =
  Status :: uint64
  Len :: uint32
  Snaplen :: uint32
  Mac :: uint16
  Net :: uint16
  Sec :: uint32
  Usec :: uint32
  Padding :: "byte list"

record V2header =
  Status :: uint32
  Len :: uint32
  Snaplen :: uint32
  Mac :: uint16
  Net :: uint16
  Sec :: uint32
  Nsec :: uint32
  VlanTci :: uint16
  VlanTpid :: uint16
  Padding :: "byte list"

record TpacketHdrVariant1 =
  TpRxhash :: uint32
  TpVlanTci :: uint32
  TpVlanTpid :: uint16
  Padding :: uint16

record TpPacketBdTs =
  Sec :: uint32
  Usec :: uint32

record TpPacket =
  TpNextOffset :: uint32
  Tp_sec :: uint32
  Tp_nsec :: uint32
  Tp_snaplen :: uint32
  Tp_len :: uint32
  Tp_status :: uint32
  Tp_mac :: uint16
  Tp_net :: uint16
  Tp_hv1 :: TpacketHdrVariant1
  Padding :: "byte list"

record TpacketHdrV1 =
  BlockStatus :: uint32
  NumPkts :: uint32
  OffsetToFirstPkt :: uint32
  BlkLen :: uint32
  SeqNum :: uint64
  TsFirstPkt :: TpPacketBdTs
  TsLastPkt :: TpPacketBdTs

text \<open>
  The wrapper of a block: three pointers into the ring and the cursor. \<open>Block\<close> points at
  a \<open>TpBlock\<close> (\<open>Version\<close>, \<open>ToPriv\<close>, then the 40 bytes \<open>Hdr\<close> at offset 8), \<open>Blockhdr\<close>
  at the \<open>TpacketHdrV1\<close> laid over \<open>Hdr\<close>, \<open>Packet\<close> at the current \<open>TpPacket\<close>.
\<close>

record V3header =
  Block :: uintptr
  Blockhdr :: uintptr
  Packet :: uintptr
  used :: uint32

text \<open>
  The configuration of the socket is declared outside the source at hand; the code
  reads one field of it.
\<close>

record options =
  addVLANHeader :: bool

subsection \<open>The mapped ring\<close>

text \<open>
  The headers are laid over memory shared with the kernel and reached through pointers.
  The ring is that memory: a byte at every address. Every receiver is an address into
  it; a method that writes through its receiver returns the ring updated.
\<close>

record ring =
  byte_at :: "uintptr \<Rightarrow> byte"

text \<open>
  Integers lie in the ring with their low byte first, as on the little-endian targets.
  Reading a field of a structure loads the bytes of the field; an assignment to a field
  (\<open>h.Status = 0\<close>) stores them, and touches no other byte.
\<close>

definition load16 :: "ring \<Rightarrow> uintptr \<Rightarrow> uint16" where
  "load16 m a = ucast (byte_at m a) OR push_bit 8 (ucast (byte_at m (a + 1)))"

definition load32 :: "ring \<Rightarrow> uintptr \<Rightarrow> uint32" where
  "load32 m a =
     ucast (byte_at m a) OR push_bit 8 (ucast (byte_at m (a + 1))) OR
     push_bit 16 (ucast (byte_at m (a + 2))) OR push_bit 24 (ucast (byte_at m (a + 3)))"

definition load64 :: "ring \<Rightarrow> uintptr \<Rightarrow> uint64" where
  "load64 m a =
     ucast (byte_at m a) OR push_bit 8 (ucast (byte_at m (a + 1))) OR
     push_bit 16 (ucast (byte_at m (a + 2))) OR push_bit 24 (ucast (byte_at m (a + 3))) OR
     push_bit 32 (ucast (byte_at m (a + 4))) OR push_bit 40 (ucast (byte_at m (a + 5))) OR
     push_bit 48 (ucast (byte_at m (a + 6))) OR push_bit 56 (ucast (byte_at m (a + 7)))"

definition store32 :: "ring \<Rightarrow> uintptr \<Rightarrow> uint32 \<Rightarrow> ring" where
  "store32 m a v =
     m\<lparr>byte_at := (byte_at m)
        (a := ucast v, a + 1 := ucast (drop_bit 8 v), a + 2 := ucast (drop_bit 16 v),
         a + 3 := ucast (drop_bit 24 v))\<rparr>"

definition store64 :: "ring \<Rightarrow> uintptr \<Rightarrow> uint64 \<Rightarrow> ring" where
  "store64 m a v =
     m\<lparr>byte_at := (byte_at m)
        (a := ucast v, a + 1 := ucast (drop_bit 8 v), a + 2 := ucast (drop_bit 16 v),
         a + 3 := ucast (drop_bit 24 v), a + 4 := ucast (drop_bit 32 v),
         a + 5 := ucast (drop_bit 40 v), a + 6 := ucast (drop_bit 48 v),
         a + 7 := ucast (drop_bit 56 v))\<rparr>"

text \<open>
  \<open>outside a n x\<close>: the address \<open>x\<close> is none of the \<open>n\<close> bytes from \<open>a\<close> on (its offset
  from \<open>a\<close>, in the arithmetic of addresses, is at least \<open>n\<close>).
\<close>

definition outside :: "uintptr \<Rightarrow> nat \<Rightarrow> uintptr \<Rightarrow> bool" where
  "outside a n x = (n \<le> unat (x - a))"

text \<open>
  A pointer to a structure reads the structure laid over the bytes at that address, each
  field at the offset Go gives it (every field at its natural alignment, which is also
  the kernel's layout of these structures): \<open>v1_at m h\<close> is \<open>*h\<close> for \<open>h *V1header\<close>, and
  so on. Views at different addresses, or of different structures, share the bytes they
  overlap on.
\<close>

definition v1_at :: "ring \<Rightarrow> uintptr \<Rightarrow> V1header" where
  "v1_at m h =
     \<lparr>V1header.Status = load64 m h,
      Len = load32 m (h + 8),
      Snaplen = load32 m (h + 12),
      Mac = load16 m (h + 16),
      Net = load16 m (h + 18),
      Sec = load32 m (h + 20),
      Usec = load32 m (h + 24),
      Padding = [byte_at m (h + 28), byte_at m (h + 29), byte_at m (h + 30),
                 byte_at m (h + 31)]\<rparr>"

definition v2_at :: "ring \<Rightarrow> uintptr \<Rightarrow> V2header" where
  "v2_at m h =
     \<lparr>V2header.Status = load32 m h,
      Len = load32 m (h + 4),
      Snaplen = load32 m (h + 8),
      Mac = load16 m (h + 12),
      Net = load16 m (h + 14),
      Sec = load32 m (h + 16),
      Nsec = load32 m (h + 20),
      VlanTci = load16 m (h + 24),
      VlanTpid = load16 m (h + 26),
      Padding = [byte_at m (h + 28), byte_at m (h + 29), byte_at m (h + 30),
                 byte_at m (h + 31)]\<rparr>"

definition blockhdr_at :: "ring \<Rightarrow> uintptr \<Rightarrow> TpacketHdrV1" where
  "blockhdr_at m b =
     \<lparr>BlockStatus = load32 m b,
      NumPkts = load32 m (b + 4),
      OffsetToFirstPkt = load32 m (b + 8),
      BlkLen = load32 m (b + 12),
      SeqNum = load64 m (b + 16),
      TsFirstPkt = \<lparr>TpPacketBdTs.Sec = load32 m (b + 24), Usec = load32 m (b + 28)\<rparr>,
      TsLastPkt = \<lparr>TpPacketBdTs.Sec = load32 m (b + 32), Usec = load32 m (b + 36)\<rparr>\<rparr>"

definition packet_at :: "ring \<Rightarrow> uintptr \<Rightarrow> TpPacket" where
  "packet_at m p =
     \<lparr>TpNextOffset = load32 m p,
      Tp_sec = load32 m (p + 4),
      Tp_nsec = load32 m (p + 8),
      Tp_snaplen = load32 m (p + 12),
      Tp_len = load32 m (p + 16),
      Tp_status = load32 m (p + 20),
      Tp_mac = load16 m (p + 24),
      Tp_net = load16 m (p + 26),
      Tp_hv1 = \<lparr>TpRxhash = load32 m (p + 28), TpVlanTci = load32 m (p + 32),
                TpVlanTpid = load16 m (p + 36),
                TpacketHdrVariant1.Padding = load16 m (p + 38)\<rparr>,
      Padding = [byte_at m (p + 40), byte_at m (p + 41), byte_at m (p + 42),
                 byte_at m (p + 43), byte_at m (p + 44), byte_at m (p + 45),
                 byte_at m (p + 46), byte_at m (p + 47)]\<rparr>"

subsection \<open>Slices\<close>

text \<open>
  A Go slice is a window on a backing array: \<open>backing\<close> holds the array from the first
  element of the slice up to its capacity, \<open>slen\<close> is the length. A slice expression
  \<open>s[lo:hi]\<close> on a slice panics unless \<open>lo \<le> hi \<le> cap s\<close>; with \<open>hi\<close> left out it
  is \<open>len s\<close>.
\<close>

record go_slice =
  backing :: "byte list"
  slen :: nat

definition cap :: "go_slice \<Rightarrow> nat" where
  "cap s = length (backing s)"

definition elems :: "go_slice \<Rightarrow> byte list" where
  "elems s = take (slen s) (backing s)"

definition slice_ok :: "go_slice \<Rightarrow> bool" where
  "slice_ok s = (slen s \<le> cap s)"

datatype panic = SliceBoundsOutOfRange

text \<open>\<open>makeSlice\<close> builds a slice header over \<open>len\<close> bytes of the ring from \<open>start\<close>.\<close>

definition makeSlice :: "ring \<Rightarrow> uintptr \<Rightarrow> go_int \<Rightarrow> go_slice" where
  "makeSlice m start len =
     \<lparr>backing = map (\<lambda>i. byte_at m (start + of_nat i)) [0 ..< nat (sint len)],
      slen = nat (sint len)\<rparr>"

subsection \<open>The VLAN header\<close>

text \<open>
  The source returns \<open>data\<close> when there is nothing to insert. Otherwise it takes
  \<open>data[0:12]\<close>, which panics when the capacity is below 12, appends the four bytes of
  the tag, and appends \<open>data[12:]\<close>, which panics when the length is below 12. The
  result was made with capacity \<open>len(data) + VlanHlen\<close>, which the three appends fill
  exactly when neither slice expression panics.
\<close>

definition insertVlanHeader :: "go_slice \<Rightarrow> go_int \<Rightarrow> options \<Rightarrow> panic + go_slice" where
  "insertVlanHeader data vlanTCI opts =
     (if vlanTCI = 0 \<or> \<not> addVLANHeader opts then Inr data
      else if cap data < EthAlen * 2 then Inl SliceBoundsOutOfRange
      else
        let eth = take (EthAlen * 2) (backing data);
            eth = eth @ [0x81, 0, ucast (signed_drop_bit 8 vlanTCI AND 0xff),
                         ucast (vlanTCI AND 0xff)]
        in if slen data < EthAlen * 2 then Inl SliceBoundsOutOfRange
           else
             let r = eth @ drop (EthAlen * 2) (elems data)
             in Inr \<lparr>backing = r, slen = length r\<rparr>)"

subsection \<open>Timestamps\<close>

text \<open>
  \<open>time.Unix(sec, nsec)\<close> of Go's standard library is the instant \<open>sec\<close> seconds and
  \<open>nsec\<close> nanoseconds after the epoch, where \<open>nsec\<close> may lie outside
  \<open>[0, 999999999]\<close>: the instant is kept as whole seconds and the nanoseconds within
  the second.
\<close>

record Time =
  unix_sec :: int
  unix_nsec :: int

definition time_Unix :: "go_int \<Rightarrow> go_int \<Rightarrow> Time" where
  "time_Unix sec nsec =
     \<lparr>unix_sec = sint sec + sint nsec div 1000000000,
      unix_nsec = sint nsec mod 1000000000\<rparr>"

subsection \<open>Variant A: \<open>V1header\<close>\<close>

definition V1header_getVLAN :: "ring \<Rightarrow> uintptr \<Rightarrow> go_int" where
  "V1header_getVLAN m h = - 1"

definition V1header_getStatus :: "ring \<Rightarrow> uintptr \<Rightarrow> go_int" where
  "V1header_getStatus m h = ucast (V1header.Status (v1_at m h))"

definition V1header_clearStatus :: "ring \<Rightarrow> uintptr \<Rightarrow> ring" where
  "V1header_clearStatus m h = store64 m h 0"

definition V1header_getTime :: "ring \<Rightarrow> uintptr \<Rightarrow> Time" where
  "V1header_getTime m h =
     time_Unix (ucast (V1header.Sec (v1_at m h))) (ucast (V1header.Usec (v1_at m h)) * 1000)"

definition V1header_getData :: "ring \<Rightarrow> uintptr \<Rightarrow> options \<Rightarrow> panic + go_slice" where
  "V1header_getData m h opts =
     Inr (makeSlice m (h + ucast (V1header.Mac (v1_at m h)))
            (ucast (V1header.Snaplen (v1_at m h))))"

definition V1header_getLength :: "ring \<Rightarrow> uintptr \<Rightarrow> go_int" where
  "V1header_getLength m h = ucast (V1header.Len (v1_at m h))"

definition V1header_next :: "ring \<Rightarrow> uintptr \<Rightarrow> bool" where
  "V1header_next m h = False"

subsection \<open>Variant B: \<open>V2header\<close>\<close>

definition V2header_getVLAN :: "ring \<Rightarrow> uintptr \<Rightarrow> go_int" where
  "V2header_getVLAN m h = - 1"

definition V2header_getStatus :: "ring \<Rightarrow> uintptr \<Rightarrow> go_int" where
  "V2header_getStatus m h = ucast (V2header.Status (v2_at m h))"

definition V2header_clearStatus :: "ring \<Rightarrow> uintptr \<Rightarrow> ring" where
  "V2header_clearStatus m h = store32 m h 0"

definition V2header_getTime :: "ring \<Rightarrow> uintptr \<Rightarrow> Time" where
  "V2header_getTime m h =
     time_Unix (ucast (V2header.Sec (v2_at m h))) (ucast (Nsec (v2_at m h)))"

definition V2header_getData :: "ring \<Rightarrow> uintptr \<Rightarrow> options \<Rightarrow> panic + go_slice" where
  "V2header_getData m h opts =
     (let data = makeSlice m (h + ucast (V2header.Mac (v2_at m h)))
                   (ucast (V2header.Snaplen (v2_at m h)))
      in insertVlanHeader data (ucast (VlanTci (v2_at m h))) opts)"

definition V2header_getLength :: "ring \<Rightarrow> uintptr \<Rightarrow> go_int" where
  "V2header_getLength m h = ucast (V2header.Len (v2_at m h))"

definition V2header_next :: "ring \<Rightarrow> uintptr \<Rightarrow> bool" where
  "V2header_next m h = False"

subsection \<open>Variant C: \<open>V3header\<close>\<close>

text \<open>
  The wrapper is a Go value of its own, not part of the ring: a method that changes it
  (\<open>next\<close>) returns it updated, and \<open>clearStatus\<close>, which writes through \<open>Blockhdr\<close>,
  returns the ring.
\<close>

definition initV3Wrapper :: "ring \<Rightarrow> uintptr \<Rightarrow> V3header" where
  "initV3Wrapper m block =
     (let blockhdr = block + 8
      in \<lparr>Block = block,
          Blockhdr = blockhdr,
          Packet = block + ucast (OffsetToFirstPkt (blockhdr_at m blockhdr)),
          used = 0\<rparr>)"

definition V3header_getVLAN :: "ring \<Rightarrow> V3header \<Rightarrow> go_int" where
  "V3header_getVLAN m w =
     (if Tp_status (packet_at m (Packet w)) AND StatusVlanValid \<noteq> 0
      then ucast (TpVlanTci (Tp_hv1 (packet_at m (Packet w))) AND 0xfff)
      else - 1)"

definition V3header_getStatus :: "ring \<Rightarrow> V3header \<Rightarrow> go_int" where
  "V3header_getStatus m w = ucast (BlockStatus (blockhdr_at m (Blockhdr w)))"

definition V3header_clearStatus :: "ring \<Rightarrow> V3header \<Rightarrow> ring" where
  "V3header_clearStatus m w = store32 m (Blockhdr w) 0"

definition V3header_getTime :: "ring \<Rightarrow> V3header \<Rightarrow> Time" where
  "V3header_getTime m w =
     time_Unix (ucast (Tp_sec (packet_at m (Packet w))))
       (ucast (Tp_nsec (packet_at m (Packet w))))"

definition V3header_getData :: "ring \<Rightarrow> V3header \<Rightarrow> options \<Rightarrow> panic + go_slice" where
  "V3header_getData m w opts =
     (let p = packet_at m (Packet w);
          data = makeSlice m (Packet w + ucast (Tp_mac p)) (ucast (Tp_snaplen p))
      in insertVlanHeader data (ucast (TpVlanTci (Tp_hv1 p))) opts)"

definition V3header_getLength :: "ring \<Rightarrow> V3header \<Rightarrow> go_int" where
  "V3header_getLength m w = ucast (Tp_len (packet_at m (Packet w)))"

definition V3header_next :: "ring \<Rightarrow> V3header \<Rightarrow> bool \<times> V3header" where
  "V3header_next m w =
     (let w = w\<lparr>used := used w + 1\<rparr>
      in if NumPkts (blockhdr_at m (Blockhdr w)) \<le> used w then (False, w)
         else
           let p = packet_at m (Packet w);
               next = Packet w;
               next = (if TpNextOffset p \<noteq> 0 then next + ucast (TpNextOffset p)
                       else next + tpAlign (ucast (Tp_snaplen p) + ucast (Tp_mac p)))
           in (True, w\<lparr>Packet := next\<rparr>))"

subsection \<open>Variant C, cgo twin: \<open>TpV3Hdr.getVLAN\<close>\<close>

text \<open>
  The cgo twin has the same wrapper (\<open>block\<close>, \<open>blockhdr\<close>, \<open>packet\<close>, \<open>used\<close>) and the same
  packet fields under the kernel's names. Its \<open>getVLAN\<close> tests the same status bit, but
  then lays \<open>HeaderVariant1\<close> over \<open>&w.packet\<close>, the address of the wrapper's own field,
  not over the packet's union as the commented line of the pure Go twin does
  (\<open>&w.TpPacket.anon0[0]\<close>). On a little-endian 64-bit target the overlay's receive hash
  is the low half of the pointer \<open>packet\<close>, its \<open>Vlan_tci\<close> the high half, its
  \<open>Vlan_tpid\<close> and padding the two halves of \<open>used\<close>.
\<close>

definition TpV3Hdr_hv1 :: "V3header \<Rightarrow> TpacketHdrVariant1" where
  "TpV3Hdr_hv1 w =
     \<lparr>TpRxhash = ucast (Packet w),
      TpVlanTci = ucast (drop_bit 32 (Packet w)),
      TpVlanTpid = ucast (used w),
      Padding = ucast (drop_bit 16 (used w))\<rparr>"

definition TpV3Hdr_getVLAN :: "ring \<Rightarrow> V3header \<Rightarrow> go_int" where
  "TpV3Hdr_getVLAN m w =
     (if Tp_status (packet_at m (Packet w)) AND StatusVlanValid \<noteq> 0
      then ucast (TpVlanTci (TpV3Hdr_hv1 w) AND 0xfff)
      else - 1)"

subsection \<open>The reader's loop over a block\<close>

text \<open>
  The interface asks its caller to call \<open>next\<close> until it returns false and not again.
  \<open>next_calls m w n\<close> is the wrapper after at most \<open>n\<close> such calls.
\<close>

fun next_calls :: "ring \<Rightarrow> V3header \<Rightarrow> nat \<Rightarrow> V3header" where
  "next_calls m w 0 = w"
| "next_calls m w (Suc n) =
     (let (more, w') = V3header_next m w
      in if more then next_calls m w' n else w')"

text \<open>The instant of a \<open>Time\<close> in nanoseconds after the epoch.\<close>

definition unix_nanos :: "Time \<Rightarrow> int" where
  "unix_nanos t = unix_sec t * 1000000000 + unix_nsec t"

section \<open>Concrete payloads, frames and blocks\<close>

definition short_payload :: go_slice where
  "short_payload = \<lparr>backing = [1, 2, 3, 4, 5], slen = 5\<rparr>"

definition eth_payload :: go_slice where
  "eth_payload =
     \<lparr>backing = [1, 2, 3, 4, 5, 6, 7, 8, 9, 10, 11, 12, 0x08, 0x00, 0x45], slen = 15\<rparr>"

definition vlan_on :: options where
  "vlan_on = \<lparr>addVLANHeader = True\<rparr>"

definition vlan_off :: options where
  "vlan_off = \<lparr>addVLANHeader = False\<rparr>"

text \<open>A frame of each single-packet variant, taken a quarter of a second into a second.\<close>

definition frame_v1 :: V1header where
  "frame_v1 =
     \<lparr>V1header.Status = 1, Len = 60, Snaplen = 60, Mac = 66, Net = 80,
      Sec = 1700000000, Usec = 250000, Padding = [0, 0, 0, 0]\<rparr>"

definition frame_v2 :: V2header where
  "frame_v2 =
     \<lparr>V2header.Status = 0x11, Len = 60, Snaplen = 60, Mac = 66, Net = 80,
      Sec = 1700000000, Nsec = 250000000, VlanTci = 0x0ABC, VlanTpid = 0x8100,
      Padding = [0, 0, 0, 0]\<rparr>"

text \<open>
  The header of a block of \<open>n\<close> packets, a first packet with the VLAN bit set and an
  explicit offset to the next one, and a packet with no offset and no VLAN.
\<close>

definition block_hdr :: "uint32 \<Rightarrow> TpacketHdrV1" where
  "block_hdr n =
     \<lparr>BlockStatus = 1, NumPkts = n, OffsetToFirstPkt = 48, BlkLen = 4096, SeqNum = 7,
      TsFirstPkt = \<lparr>TpPacketBdTs.Sec = 1700000000, Usec = 250000\<rparr>,
      TsLastPkt = \<lparr>TpPacketBdTs.Sec = 1700000000, Usec = 250000\<rparr>\<rparr>"

definition pkt_first :: TpPacket where
  "pkt_first =
     \<lparr>TpNextOffset = 96, Tp_sec = 1700000000, Tp_nsec = 250000000, Tp_snaplen = 14,
      Tp_len = 14, Tp_status = 0x11, Tp_mac = 82, Tp_net = 96,
      Tp_hv1 = \<lparr>TpRxhash = 0, TpVlanTci = 0x2ABC, TpVlanTpid = 0x8100,
                TpacketHdrVariant1.Padding = 0\<rparr>,
      Padding = [0, 0, 0, 0, 0, 0, 0, 0]\<rparr>"

definition pkt_other :: TpPacket where
  "pkt_other =
     \<lparr>TpNextOffset = 0, Tp_sec = 1700000000, Tp_nsec = 250000000, Tp_snaplen = 60,
      Tp_len = 60, Tp_status = 1, Tp_mac = 82, Tp_net = 96,
      Tp_hv1 = \<lparr>TpRxhash = 0, TpVlanTci = 0, TpVlanTpid = 0,
                TpacketHdrVariant1.Padding = 0\<rparr>,
      Padding = [0, 0, 0, 0, 0, 0, 0, 0]\<rparr>"

text \<open>\<open>place a bs m\<close> is the ring \<open>m\<close> with the bytes \<open>bs\<close> from the address \<open>a\<close> on.\<close>

definition place :: "uintptr \<Rightarrow> byte list \<Rightarrow> ring \<Rightarrow> ring" where
  "place a bs m =
     \<lparr>byte_at = (\<lambda>x. if unat (x - a) < length bs then bs ! unat (x - a) else byte_at m x)\<rparr>"

text \<open>The bytes of the structures above, a field on each line.\<close>

definition frame_v1_bytes :: "byte list" where
  "frame_v1_bytes =
     [0x01, 0, 0, 0, 0, 0, 0, 0] @
     [0x3C, 0, 0, 0] @
     [0x3C, 0, 0, 0] @
     [0x42, 0] @
     [0x50, 0] @
     [0x00, 0xF1, 0x53, 0x65] @
     [0x90, 0xD0, 0x03, 0x00] @
     [0, 0, 0, 0]"

definition frame_v2_bytes :: "byte list" where
  "frame_v2_bytes =
     [0x11, 0, 0, 0] @
     [0x3C, 0, 0, 0] @
     [0x3C, 0, 0, 0] @
     [0x42, 0] @
     [0x50, 0] @
     [0x00, 0xF1, 0x53, 0x65] @
     [0x80, 0xB2, 0xE6, 0x0E] @
     [0xBC, 0x0A] @
     [0x00, 0x81] @
     [0, 0, 0, 0]"

definition block_hdr_bytes :: "uint32 \<Rightarrow> byte list" where
  "block_hdr_bytes n =
     [0x01, 0, 0, 0] @
     [ucast n, ucast (drop_bit 8 n), ucast (drop_bit 16 n), ucast (drop_bit 24 n)] @
     [0x30, 0, 0, 0] @
     [0x00, 0x10, 0, 0] @
     [0x07, 0, 0, 0, 0, 0, 0, 0] @
     [0x00, 0xF1, 0x53, 0x65] @
     [0x90, 0xD0, 0x03, 0x00] @
     [0x00, 0xF1, 0x53, 0x65] @
     [0x90, 0xD0, 0x03, 0x00]"

definition pkt_first_bytes :: "byte list" where
  "pkt_first_bytes =
     [0x60, 0, 0, 0] @
     [0x00, 0xF1, 0x53, 0x65] @
     [0x80, 0xB2, 0xE6, 0x0E] @
     [0x0E, 0, 0, 0] @
     [0x0E, 0, 0, 0] @
     [0x11, 0, 0, 0] @
     [0x52, 0] @
     [0x60, 0] @
     [0, 0, 0, 0] @
     [0xBC, 0x2A, 0, 0] @
     [0x00, 0x81] @
     [0, 0] @
     [0, 0, 0, 0, 0, 0, 0, 0]"

definition pkt_other_bytes :: "byte list" where
  "pkt_other_bytes =
     [0, 0, 0, 0] @
     [0x00, 0xF1, 0x53, 0x65] @
     [0x80, 0xB2, 0xE6, 0x0E] @
     [0x3C, 0, 0, 0] @
     [0x3C, 0, 0, 0] @
     [0x01, 0, 0, 0] @
     [0x52, 0] @
     [0x60, 0] @
     [0, 0, 0, 0] @
     [0, 0, 0, 0] @
     [0, 0] @
     [0, 0] @
     [0, 0, 0, 0, 0, 0, 0, 0]"

text \<open>
  The ring of the examples: zero bytes but for a variant-A frame at \<open>0x3000\<close>, a
  variant-B frame at \<open>0x4000\<close>, and a block at \<open>0x1000\<close> with its header at \<open>0x1008\<close>,
  \<open>n\<close> as its packet count and its first two packets at \<open>0x1030\<close> and \<open>0x1090\<close>.
\<close>

definition ring_of :: "uint32 \<Rightarrow> ring" where
  "ring_of n =
     place 0x1090 pkt_other_bytes
       (place 0x1030 pkt_first_bytes
         (place 0x1008 (block_hdr_bytes n)
           (place 0x4000 frame_v2_bytes
             (place 0x3000 frame_v1_bytes \<lparr>byte_at = (\<lambda>a. 0)\<rparr>))))"

section \<open>The ring of the examples\<close>

lemma byte_at_place:
  "byte_at (place a bs m) x = (if unat (x - a) < length bs then bs ! unat (x - a) else byte_at m x)"
  by (simp add: place_def)

lemmas loads = load16_def load32_def load64_def

lemmas fixture_bytes =
  frame_v1_bytes_def frame_v2_bytes_def block_hdr_bytes_def pkt_first_bytes_def pkt_other_bytes_def

lemma le32_roundtrip:
  "(ucast (ucast v :: byte) :: uint32) OR
   push_bit 8 (ucast (ucast (drop_bit 8 v) :: byte) :: uint32) OR
   push_bit 16 (ucast (ucast (drop_bit 16 v) :: byte) :: uint32) OR
   push_bit 24 (ucast (ucast (drop_bit 24 v) :: byte) :: uint32) = (v :: uint32)"
proof (rule bit_eqI)
  fix k
  assume "possible_bit TYPE(uint32) k"
  then have k: "k < 32" by (simp add: possible_bit_def)
  consider "k < 8" | "8 \<le> k" "k < 16" | "16 \<le> k" "k < 24" | "24 \<le> k"
    by linarith
  then show "bit ((ucast (ucast v :: byte) :: uint32) OR
        push_bit 8 (ucast (ucast (drop_bit 8 v) :: byte) :: uint32) OR
        push_bit 16 (ucast (ucast (drop_bit 16 v) :: byte) :: uint32) OR
        push_bit 24 (ucast (ucast (drop_bit 24 v) :: byte) :: uint32)) k = bit v k"
    using k by cases (auto simp add: bit_simps)
qed

lemma unat_minus_one_64: "unat (- 1 :: 64 word) = 18446744073709551615"
  by (simp add: unsigned_minus_1_eq_mask mask_eq_exp_minus_1)

lemma ring_of_v1: "v1_at (ring_of n) 0x3000 = frame_v1"
  by (simp add: v1_at_def loads ring_of_def byte_at_place fixture_bytes frame_v1_def)

lemma ring_of_v2: "v2_at (ring_of n) 0x4000 = frame_v2"
  by (simp add: v2_at_def loads ring_of_def byte_at_place fixture_bytes frame_v2_def)

lemma ring_of_pkt_first: "packet_at (ring_of n) 0x1030 = pkt_first"
  by (simp add: packet_at_def loads ring_of_def byte_at_place fixture_bytes pkt_first_def)

lemma ring_of_pkt_other: "packet_at (ring_of n) 0x1090 = pkt_other"
  by (simp add: packet_at_def loads ring_of_def byte_at_place fixture_bytes pkt_other_def)

lemma ring_of_blockhdr: "blockhdr_at (ring_of n) 0x1008 = block_hdr n"
  by (simp add: blockhdr_at_def loads ring_of_def byte_at_place fixture_bytes block_hdr_def
      le32_roundtrip unat_minus_one_64)

lemma ring_of_init:
  "initV3Wrapper (ring_of n) 0x1000 = \<lparr>Block = 0x1000, Blockhdr = 0x1008, Packet = 0x1030, used = 0\<rparr>"
  by (simp add: initV3Wrapper_def ring_of_blockhdr block_hdr_def)

lemmas ring_of_views =
  ring_of_init ring_of_v1 ring_of_v2 ring_of_blockhdr ring_of_pkt_first ring_of_pkt_other

section \<open>Words read as numbers\<close>

lemma sint_eq_unat:
  assumes "unat (x :: 64 word) < 9223372036854775808"
  shows "sint x = int (unat x)"
proof -
  have "int (unat x) < 9223372036854775808" using assms by linarith
  then have u: "uint x < 2 ^ 63" by (simp only: of_nat_unat) simp
  have a: "- (2 ^ 63) \<le> (0::int)" by simp
  have b: "0 \<le> uint x" by simp
  from a b have "- (2 ^ 63) \<le> uint x" by (rule order_trans)
  then have "signed_take_bit 63 (uint x) = uint x"
    using u by (rule signed_take_bit_int_eq_self)
  then have "sint x = uint x" by (simp add: sint_uint)
  then show ?thesis by (simp only: of_nat_unat)
qed

lemma unat_eq_sint:
  assumes "0 \<le> sint (x :: 64 word)"
  shows "int (unat x) = sint x"
proof -
  have "sint x < 2 ^ 63" using sint_lt [of x] by simp
  then have "sint x < 2 ^ 64" by simp
  then have "take_bit 64 (sint x) = sint x"
    using assms by (simp add: take_bit_int_eq_self)
  then have "uint x = sint x" using uint_sint [of x] by simp
  then show ?thesis by (simp only: of_nat_unat)
qed

lemma sint_eq_uint:
  assumes "uint (x :: 64 word) < 9223372036854775808"
  shows "sint x = uint x"
proof -
  have "int (unat x) < 9223372036854775808" using assms by (simp only: of_nat_unat)
  then have "unat x < 9223372036854775808" by linarith
  then have "sint x = int (unat x)" by (rule sint_eq_unat)
  then show ?thesis by (simp only: of_nat_unat)
qed

lemma uint_ucast32: "uint (ucast (x :: uint32) :: 64 word) = uint x"
  by (simp add: uint_up_ucast is_up)

lemma uint_ucast16: "uint (ucast (x :: uint16) :: 64 word) = uint x"
  by (simp add: uint_up_ucast is_up)

lemma uint32_bound: "uint (x :: uint32) < 4294967296"
  using uint_bounded [of x] by simp

lemma uint16_bound: "uint (x :: uint16) < 65536"
  using uint_bounded [of x] by simp

lemma sint_ucast32: "sint (ucast (x :: uint32) :: 64 word) = uint x"
proof -
  have "uint x < 9223372036854775808"
    using uint32_bound [of x] by linarith
  then have "uint (ucast x :: 64 word) < 9223372036854775808"
    by (simp only: uint_ucast32)
  then have "sint (ucast x :: 64 word) = uint (ucast x :: 64 word)" by (rule sint_eq_uint)
  then show ?thesis by (simp only: uint_ucast32)
qed

section \<open>Alignment\<close>

text \<open>Clearing the low four bits is dropping them and shifting back.\<close>

lemma and_not_15: "(w :: 64 word) AND NOT 15 = push_bit 4 (drop_bit 4 w)"
proof -
  have "(15 :: 64 word) = mask 4" by (simp add: mask_eq_exp_minus_1)
  then have "w AND NOT 15 = w AND NOT (mask 4)" by simp
  also have "\<dots> = push_bit 4 (drop_bit 4 w)"
    by (rule bit_eqI) (auto simp add: bit_simps)
  finally show ?thesis .
qed

lemma unat_and_not_15: "unat ((w :: 64 word) AND NOT 15) = unat w div 16 * 16"
proof -
  have le: "unat w div 16 * 16 \<le> unat w" by simp
  have lt: "unat w < 2 ^ 64" using unsigned_less [of w] by simp
  have d: "unat (drop_bit 4 w) = unat w div 16"
    by (simp add: drop_bit_eq_div unat_div)
  have "unat (push_bit 4 (drop_bit 4 w)) = (unat (drop_bit 4 w) * 16) mod 2 ^ 64"
    by (simp add: push_bit_eq_mult unat_word_ariths)
  also have "\<dots> = unat w div 16 * 16"
    using le lt by (simp only: d) simp
  finally show ?thesis by (simp only: and_not_15)
qed

lemma tpAlign_unat:
  assumes "unat x \<le> 18446744073709551600"
  shows "unat (tpAlign x) = (unat x + 15) div 16 * 16"
proof -
  have a: "unat (x + 15) = unat x + 15"
    using assms by (simp add: unat_word_ariths)
  have "tpAlign x = (x + 15) AND NOT 15"
    by (simp add: tpAlign_def tpacketAlignment_def add.commute)
  then show ?thesis
    by (simp only: unat_and_not_15 a)
qed

lemma tpAlign_sint:
  assumes "0 \<le> sint x" and "sint x \<le> 9223372036854775792"
  shows "sint (tpAlign x) = (sint x + 15) div 16 * 16"
proof -
  have n: "int (unat x) = sint x" using assms(1) by (rule unat_eq_sint)
  then have b: "unat x \<le> 9223372036854775792" using assms(2) by linarith
  then have u: "unat (tpAlign x) = (unat x + 15) div 16 * 16"
    by (intro tpAlign_unat) linarith
  have "(unat x + 15) div 16 * 16 \<le> unat x + 15" by simp
  then have "unat (tpAlign x) < 9223372036854775808" using b u by linarith
  then have "sint (tpAlign x) = int (unat (tpAlign x))" by (rule sint_eq_unat)
  also have "\<dots> = (int (unat x) + 15) div 16 * 16"
    by (simp only: u) (simp add: zdiv_int)
  finally show ?thesis by (simp only: n)
qed

text \<open>
  Claim C5, as amended. The alignment constant is 16, and \<open>tpAlign 0 = 0\<close>,
  \<open>tpAlign 1 = 16\<close>, \<open>tpAlign 16 = 16\<close>, \<open>tpAlign 17 = 32\<close>. For every \<open>x\<close> with
  \<open>0 \<le> x \<le> 2\<^sup>6\<^sup>3 - 16\<close> (the largest multiple of 16 an \<open>int\<close> holds), \<open>tpAlign x\<close> is the
  smallest multiple of 16 that is at least \<open>x\<close>: it is a multiple of 16, it is not below
  \<open>x\<close>, and no multiple of 16 that is not below \<open>x\<close> lies under it.
\<close>

theorem tpAlign_least_multiple:
  assumes "0 \<le> sint x" and "sint x \<le> 9223372036854775792"
  shows "uint tpacketAlignment = 16 \<and>
         16 dvd sint (tpAlign x) \<and> sint x \<le> sint (tpAlign x) \<and>
         (\<forall>k. 16 dvd k \<and> sint x \<le> k \<longrightarrow> sint (tpAlign x) \<le> k) \<and>
         tpAlign 0 = 0 \<and> tpAlign 1 = 16 \<and> tpAlign 16 = 16 \<and> tpAlign 17 = 32"
proof -
  have s: "sint (tpAlign x) = (sint x + 15) div 16 * 16"
    using assms by (rule tpAlign_sint)
  have 1: "16 dvd sint (tpAlign x)" by (simp add: s)
  have 2: "sint x \<le> sint (tpAlign x)" unfolding s by presburger
  have 3: "\<forall>k. 16 dvd k \<and> sint x \<le> k \<longrightarrow> sint (tpAlign x) \<le> k"
    unfolding s by presburger
  have 4: "tpAlign 0 = 0 \<and> tpAlign 1 = 16 \<and> tpAlign 16 = 16 \<and> tpAlign 17 = 32"
    by (simp add: tpAlign_def tpacketAlignment_def)
  have 5: "uint tpacketAlignment = 16" by (simp add: tpacketAlignment_def)
  from 1 2 3 4 5 show ?thesis by blast
qed

theorem tpAlign_least_multiple_witness:
  "0 \<le> sint (17 :: go_int) \<and> sint (17 :: go_int) \<le> 9223372036854775792 \<and>
   16 dvd sint (tpAlign 17) \<and> sint (17 :: go_int) \<le> sint (tpAlign 17) \<and>
   sint (tpAlign 17) \<le> 32"
proof -
  have a: "0 \<le> sint (17 :: go_int)" by simp
  have b: "sint (17 :: go_int) \<le> 9223372036854775792" by simp
  have c: "(16 :: int) dvd 32 \<and> sint (17 :: go_int) \<le> 32" by simp
  show ?thesis using a b c tpAlign_least_multiple [OF a b] by blast
qed

text \<open>
  The claim as stated, for every non-negative \<open>x\<close>, fails at the largest \<open>int\<close>: the sum
  \<open>x + 15\<close> passes \<open>2\<^sup>6\<^sup>3\<close>, and the result, read as an \<open>int\<close>, is the smallest \<open>int\<close>.
\<close>

theorem tpAlign_overflow_counterexample:
  "0 \<le> sint (9223372036854775807 :: go_int) \<and>
   sint (tpAlign 9223372036854775807) = - 9223372036854775808 \<and>
   \<not> sint (9223372036854775807 :: go_int) \<le> sint (tpAlign 9223372036854775807)"
  by (simp add: tpAlign_def tpacketAlignment_def)

section \<open>The VLAN header\<close>

lemma low_byte: "(ucast ((t :: go_int) AND 0xff) :: byte) = ucast t"
proof -
  have "(0xff :: go_int) = mask 8" by (simp add: mask_eq_exp_minus_1)
  then have "(ucast (t AND 0xff) :: byte) = ucast (t AND mask 8)" by simp
  also have "\<dots> = ucast t"
    by (rule bit_eqI) (auto simp add: bit_simps)
  finally show ?thesis .
qed

lemma high_byte:
  "(ucast (signed_drop_bit 8 (t :: go_int) AND 0xff) :: byte) = ucast (drop_bit 8 t)"
proof -
  have "(0xff :: go_int) = mask 8" by (simp add: mask_eq_exp_minus_1)
  then have "(ucast (signed_drop_bit 8 t AND 0xff) :: byte) =
             ucast (signed_drop_bit 8 t AND mask 8)"
    by simp
  also have "\<dots> = ucast (drop_bit 8 t)"
    by (rule bit_eqI) (simp add: bit_simps)
  finally show ?thesis .
qed

lemma uint_ucast_byte: "uint (ucast (w :: go_int) :: byte) = uint w mod 256"
  by (simp add: unsigned_ucast_eq take_bit_eq_mod)

lemma split_mod_65536: "256 * ((u::int) div 256 mod 256) + u mod 256 = u mod 65536"
  using zmod_zmult2_eq [of 256 u 256] by simp

lemma tci_big_endian:
  "256 * uint (ucast (signed_drop_bit 8 (t :: go_int) AND 0xff) :: byte)
     + uint (ucast (t AND 0xff) :: byte) = uint t mod 65536"
proof -
  have d: "uint (drop_bit 8 t) = uint t div 256"
    by (simp add: drop_bit_eq_div uint_div)
  have h: "uint (ucast (signed_drop_bit 8 t AND 0xff) :: byte) = uint t div 256 mod 256"
    by (simp only: high_byte uint_ucast_byte d)
  have l: "uint (ucast (t AND 0xff) :: byte) = uint t mod 256"
    by (simp only: low_byte uint_ucast_byte)
  show ?thesis
    by (simp only: h l split_mod_65536)
qed

lemma insertVlanHeader_unchanged:
  "vlanTCI = 0 \<or> \<not> addVLANHeader opts \<Longrightarrow> insertVlanHeader data vlanTCI opts = Inr data"
  by (auto simp add: insertVlanHeader_def)

lemma insertVlanHeader_tagged:
  assumes "slice_ok data" and "vlanTCI \<noteq> 0" and "addVLANHeader opts" and "12 \<le> slen data"
  shows "insertVlanHeader data vlanTCI opts =
           Inr \<lparr>backing = take 12 (elems data) @
                     [0x81, 0, ucast (signed_drop_bit 8 vlanTCI AND 0xff), ucast (vlanTCI AND 0xff)] @
                     drop 12 (elems data),
                slen = slen data + 4\<rparr>"
proof -
  have c: "12 \<le> cap data" using assms(1,4) by (simp add: slice_ok_def)
  have t: "take 12 (backing data) = take 12 (elems data)"
    using assms(4) by (simp add: elems_def min_def)
  have l: "length (elems data) = slen data"
    using assms(1) by (simp add: elems_def slice_ok_def cap_def)
  show ?thesis
    using assms(2-4) c t l
    by (simp add: insertVlanHeader_def EthAlen_def Let_def)
qed

lemma insertVlanHeader_short:
  assumes "vlanTCI \<noteq> 0" and "addVLANHeader opts" and "slen data < 12"
  shows "insertVlanHeader data vlanTCI opts = Inl SliceBoundsOutOfRange"
  using assms by (simp add: insertVlanHeader_def EthAlen_def Let_def)

text \<open>
  Claim C4. When \<open>vlanTCI\<close> is 0 or \<open>addVLANHeader\<close> is off, \<open>insertVlanHeader\<close> returns
  \<open>data\<close> itself: the same slice, so the same backing array and the same length.
  Otherwise, for a slice of length \<open>N \<ge> 12\<close>, it returns a slice of length \<open>N + 4\<close>
  whose first 12 bytes are those of \<open>data\<close>, whose bytes 12 to 15 are \<open>0x81\<close>, \<open>0x00\<close>,
  \<open>byte((vlanTCI >> 8) & 0xff)\<close> and \<open>byte(vlanTCI & 0xff)\<close>, the two of them the low 16
  bits of \<open>vlanTCI\<close> in big-endian order, and whose bytes from 16 on are \<open>data[12:]\<close>.
\<close>

theorem insertVlanHeader_result:
  "(vlanTCI = 0 \<or> \<not> addVLANHeader opts \<longrightarrow> insertVlanHeader data vlanTCI opts = Inr data) \<and>
   (slice_ok data \<and> vlanTCI \<noteq> 0 \<and> addVLANHeader opts \<and> 12 \<le> slen data \<longrightarrow>
     (\<exists>r. insertVlanHeader data vlanTCI opts = Inr r \<and>
          slice_ok r \<and> slen r = slen data + 4 \<and> length (elems r) = length (elems data) + 4 \<and>
          take 12 (elems r) = take 12 (elems data) \<and>
          take 4 (drop 12 (elems r)) =
            [0x81, 0x00, ucast (signed_drop_bit 8 vlanTCI AND 0xff), ucast (vlanTCI AND 0xff)] \<and>
          256 * uint (elems r ! 14) + uint (elems r ! 15) = uint vlanTCI mod 65536 \<and>
          drop 16 (elems r) = drop 12 (elems data)))"
proof (intro conjI impI)
  assume "vlanTCI = 0 \<or> \<not> addVLANHeader opts"
  then show "insertVlanHeader data vlanTCI opts = Inr data"
    by (rule insertVlanHeader_unchanged)
next
  assume a: "slice_ok data \<and> vlanTCI \<noteq> 0 \<and> addVLANHeader opts \<and> 12 \<le> slen data"
  define tag :: "byte list" where
    "tag = [0x81, 0, ucast (signed_drop_bit 8 vlanTCI AND 0xff), ucast (vlanTCI AND 0xff)]"
  define body where "body = take 12 (elems data) @ tag @ drop 12 (elems data)"
  define r where "r = \<lparr>backing = body, slen = slen data + 4\<rparr>"
  have l: "length (elems data) = slen data"
    using a by (simp add: elems_def slice_ok_def cap_def)
  have t12: "length (take 12 (elems data)) = 12" using a l by simp
  have t4: "length tag = 4" by (simp add: tag_def)
  have n: "length body = slen data + 4"
    using a l t4 by (simp add: body_def)
  have "elems r = take (slen r) (backing r)" by (rule elems_def)
  also have "\<dots> = take (slen data + 4) body" by (simp add: r_def)
  also have "\<dots> = body" using n by simp
  finally have e: "elems r = take 12 (elems data) @ tag @ drop 12 (elems data)"
    by (simp only: body_def)
  have 1: "insertVlanHeader data vlanTCI opts = Inr r"
    using a unfolding r_def body_def tag_def by (intro insertVlanHeader_tagged) simp_all
  have 2: "slice_ok r" using n by (simp add: r_def slice_ok_def cap_def)
  have 3: "slen r = slen data + 4" by (simp add: r_def)
  have 4: "length (elems r) = length (elems data) + 4" using a l by (simp add: e tag_def)
  have 5: "take 12 (elems r) = take 12 (elems data)" using t12 by (simp add: e)
  have 6: "take 4 (drop 12 (elems r)) = tag" using t12 t4 by (simp add: e)
  have 7: "drop 16 (elems r) = drop 12 (elems data)" using t12 t4 by (simp add: e)
  have "elems r ! 14 = tag ! 2" and "elems r ! 15 = tag ! 3"
    using t12 t4 by (simp_all add: e nth_append)
  then have 8: "256 * uint (elems r ! 14) + uint (elems r ! 15) = uint vlanTCI mod 65536"
    by (simp add: tag_def tci_big_endian)
  from 1 2 3 4 5 6 7 8 show "\<exists>r. insertVlanHeader data vlanTCI opts = Inr r \<and>
          slice_ok r \<and> slen r = slen data + 4 \<and> length (elems r) = length (elems data) + 4 \<and>
          take 12 (elems r) = take 12 (elems data) \<and>
          take 4 (drop 12 (elems r)) =
            [0x81, 0x00, ucast (signed_drop_bit 8 vlanTCI AND 0xff), ucast (vlanTCI AND 0xff)] \<and>
          256 * uint (elems r ! 14) + uint (elems r ! 15) = uint vlanTCI mod 65536 \<and>
          drop 16 (elems r) = drop 12 (elems data)"
    unfolding tag_def by blast
qed

theorem insertVlanHeader_result_witness:
  "insertVlanHeader eth_payload 0 vlan_on = Inr eth_payload \<and>
   insertVlanHeader eth_payload 0xABC vlan_off = Inr eth_payload \<and>
   slice_ok eth_payload \<and> (0xABC :: go_int) \<noteq> 0 \<and> addVLANHeader vlan_on \<and>
   12 \<le> slen eth_payload \<and>
   (\<exists>r. insertVlanHeader eth_payload 0xABC vlan_on = Inr r \<and> slen r = 19 \<and>
        take 4 (drop 12 (elems r)) = [0x81, 0x00, 0x0A, 0xBC] \<and>
        drop 16 (elems r) = [0x08, 0x00, 0x45])"
proof -
  have h: "slice_ok eth_payload \<and> (0xABC :: go_int) \<noteq> 0 \<and> addVLANHeader vlan_on \<and>
           12 \<le> slen eth_payload"
    by (simp add: slice_ok_def cap_def eth_payload_def vlan_on_def)
  have u1: "insertVlanHeader eth_payload 0 vlan_on = Inr eth_payload"
    using insertVlanHeader_result [of 0 vlan_on eth_payload] by simp
  have u2: "insertVlanHeader eth_payload 0xABC vlan_off = Inr eth_payload"
    using insertVlanHeader_result [of "0xABC" vlan_off eth_payload] by (simp add: vlan_off_def)
  obtain r where r: "insertVlanHeader eth_payload 0xABC vlan_on = Inr r"
      "slen r = slen eth_payload + 4"
      "take 4 (drop 12 (elems r)) =
         [0x81, 0x00, ucast (signed_drop_bit 8 (0xABC :: go_int) AND 0xff),
          ucast ((0xABC :: go_int) AND 0xff)]"
      "drop 16 (elems r) = drop 12 (elems eth_payload)"
    using insertVlanHeader_result [of "0xABC" vlan_on eth_payload] h by blast
  have "slen r = 19" using r(2) by (simp add: eth_payload_def)
  moreover have "take 4 (drop 12 (elems r)) = [0x81, 0x00, 0x0A, 0xBC]"
    using r(3) by simp
  moreover have "drop 16 (elems r) = [0x08, 0x00, 0x45]"
    using r(4) by (simp add: eth_payload_def elems_def)
  ultimately show ?thesis using h u1 u2 r(1) by blast
qed

text \<open>
  Claim C10. \<open>insertVlanHeader\<close> is partial: with \<open>vlanTCI\<close> not 0 and \<open>addVLANHeader\<close> on,
  every slice shorter than 12 bytes makes it panic with a slice bound out of range, and
  it returns a value on a slice exactly when \<open>vlanTCI\<close> is 0, \<open>addVLANHeader\<close> is off or
  the slice has at least 12 bytes.
\<close>

theorem insertVlanHeader_partial:
  "(vlanTCI \<noteq> 0 \<and> addVLANHeader opts \<and> slen data < 12 \<longrightarrow>
      insertVlanHeader data vlanTCI opts = Inl SliceBoundsOutOfRange) \<and>
   (slice_ok data \<longrightarrow>
      ((\<exists>r. insertVlanHeader data vlanTCI opts = Inr r) =
       (vlanTCI = 0 \<or> \<not> addVLANHeader opts \<or> 12 \<le> slen data)))"
proof (intro conjI impI)
  assume "vlanTCI \<noteq> 0 \<and> addVLANHeader opts \<and> slen data < 12"
  then show "insertVlanHeader data vlanTCI opts = Inl SliceBoundsOutOfRange"
    by (simp add: insertVlanHeader_short)
next
  assume ok: "slice_ok data"
  show "(\<exists>r. insertVlanHeader data vlanTCI opts = Inr r) =
        (vlanTCI = 0 \<or> \<not> addVLANHeader opts \<or> 12 \<le> slen data)"
  proof (cases "vlanTCI = 0 \<or> \<not> addVLANHeader opts")
    case True
    then show ?thesis by (auto simp add: insertVlanHeader_unchanged)
  next
    case off: False
    show ?thesis
    proof (cases "12 \<le> slen data")
      case True
      then show ?thesis using ok off by (auto simp add: insertVlanHeader_tagged)
    next
      case False
      then have "insertVlanHeader data vlanTCI opts = Inl SliceBoundsOutOfRange"
        using off by (intro insertVlanHeader_short) auto
      then show ?thesis using off False by auto
    qed
  qed
qed

theorem insertVlanHeader_partial_witness:
  "(0xABC :: go_int) \<noteq> 0 \<and> addVLANHeader vlan_on \<and> slen short_payload < 12 \<and>
   slice_ok short_payload \<and>
   insertVlanHeader short_payload 0xABC vlan_on = Inl SliceBoundsOutOfRange \<and>
   (\<nexists>r. insertVlanHeader short_payload 0xABC vlan_on = Inr r)"
proof -
  have h: "(0xABC :: go_int) \<noteq> 0 \<and> addVLANHeader vlan_on \<and> slen short_payload < 12"
    by (simp add: short_payload_def vlan_on_def)
  have ok: "slice_ok short_payload"
    by (simp add: slice_ok_def cap_def short_payload_def)
  show ?thesis
    using h ok insertVlanHeader_partial [of "0xABC" vlan_on short_payload] by auto
qed

section \<open>The VLAN id\<close>

lemma V3header_getVLAN_unset:
  "Tp_status (packet_at m (Packet w)) AND StatusVlanValid = 0 \<Longrightarrow> V3header_getVLAN m w = - 1"
  by (simp add: V3header_getVLAN_def)

lemma V3header_getVLAN_set:
  assumes "Tp_status (packet_at m (Packet w)) AND StatusVlanValid \<noteq> 0"
  shows "V3header_getVLAN m w = ucast (TpVlanTci (Tp_hv1 (packet_at m (Packet w))) AND 0xfff)"
    and "sint (V3header_getVLAN m w) =
         uint (TpVlanTci (Tp_hv1 (packet_at m (Packet w))) AND 0xfff)"
  using assms by (simp_all add: V3header_getVLAN_def sint_ucast32)

lemma tci_12_bits: "uint ((t :: uint32) AND 0xfff) = uint t mod 4096"
proof -
  have "(0xfff :: uint32) = mask 12" by (simp add: mask_eq_exp_minus_1)
  then have "t AND 0xfff = take_bit 12 t" by (simp add: take_bit_eq_mask)
  then show ?thesis by (simp add: take_bit_eq_mod uint_mod)
qed

lemma TpV3Hdr_getVLAN_unset:
  "Tp_status (packet_at m (Packet w)) AND StatusVlanValid = 0 \<Longrightarrow> TpV3Hdr_getVLAN m w = - 1"
  by (simp add: TpV3Hdr_getVLAN_def)

text \<open>
  With the bit set, the cgo twin answers from the wrapper's pointer, not from the packet:
  for the first packet of the block at \<open>0x1000\<close>, whose TCI is \<open>0x2ABC\<close>, it returns 0.
\<close>

lemma TpV3Hdr_getVLAN_reads_wrapper:
  "TpV3Hdr_getVLAN (ring_of 3) (initV3Wrapper (ring_of 3) 0x1000) = 0 \<and>
   V3header_getVLAN (ring_of 3) (initV3Wrapper (ring_of 3) 0x1000) = 0xABC"
  by (simp add: TpV3Hdr_getVLAN_def TpV3Hdr_hv1_def V3header_getVLAN_def initV3Wrapper_def
      ring_of_views block_hdr_def pkt_first_def StatusVlanValid_def)

text \<open>
  Claim C1, as amended. \<open>getVLAN\<close> returns -1 for every variant-A header and for every
  variant-B header, whatever their bytes. For variant C it returns -1 when the status of
  the current packet has the bit \<open>0x10\<close> unset, in both twins; when the bit is set,
  \<open>V3header.getVLAN\<close> returns the packet's VLAN TCI masked to 12 bits.
\<close>

theorem getVLAN_by_variant:
  "V1header_getVLAN m h = - 1 \<and> V2header_getVLAN m h = - 1 \<and>
   uint StatusVlanValid = 0x10 \<and>
   (Tp_status (packet_at m (Packet w)) AND StatusVlanValid = 0 \<longrightarrow>
      V3header_getVLAN m w = - 1 \<and> TpV3Hdr_getVLAN m w = - 1) \<and>
   (Tp_status (packet_at m (Packet w)) AND StatusVlanValid \<noteq> 0 \<longrightarrow>
      V3header_getVLAN m w = ucast (TpVlanTci (Tp_hv1 (packet_at m (Packet w))) AND 0xfff) \<and>
      sint (V3header_getVLAN m w) = uint (TpVlanTci (Tp_hv1 (packet_at m (Packet w)))) mod 4096)"
proof (intro conjI impI)
  show "V1header_getVLAN m h = - 1" by (simp add: V1header_getVLAN_def)
  show "V2header_getVLAN m h = - 1" by (simp add: V2header_getVLAN_def)
  show "uint StatusVlanValid = 0x10" by (simp add: StatusVlanValid_def)
next
  assume "Tp_status (packet_at m (Packet w)) AND StatusVlanValid = 0"
  then show "V3header_getVLAN m w = - 1" and "TpV3Hdr_getVLAN m w = - 1"
    by (simp_all add: V3header_getVLAN_unset TpV3Hdr_getVLAN_unset)
next
  assume a: "Tp_status (packet_at m (Packet w)) AND StatusVlanValid \<noteq> 0"
  then show "V3header_getVLAN m w = ucast (TpVlanTci (Tp_hv1 (packet_at m (Packet w))) AND 0xfff)"
    by (rule V3header_getVLAN_set)
  show "sint (V3header_getVLAN m w) = uint (TpVlanTci (Tp_hv1 (packet_at m (Packet w)))) mod 4096"
    using V3header_getVLAN_set(2) [OF a] by (simp only: tci_12_bits)
qed

theorem getVLAN_by_variant_witness:
  "Tp_status (packet_at (ring_of 3) (Packet (initV3Wrapper (ring_of 3) 0x1000))) AND StatusVlanValid \<noteq> 0 \<and>
   sint (V3header_getVLAN (ring_of 3) (initV3Wrapper (ring_of 3) 0x1000)) = 0xABC \<and>
   Tp_status (packet_at (ring_of 3) (Packet \<lparr>Block = 0x1000, Blockhdr = 0x1008, Packet = 0x1090, used = 1\<rparr>)) AND StatusVlanValid = 0 \<and>
   sint (V3header_getVLAN (ring_of 3) \<lparr>Block = 0x1000, Blockhdr = 0x1008, Packet = 0x1090, used = 1\<rparr>) = - 1 \<and>
   sint (TpV3Hdr_getVLAN (ring_of 3) \<lparr>Block = 0x1000, Blockhdr = 0x1008, Packet = 0x1090, used = 1\<rparr>) = - 1 \<and>
   sint (V1header_getVLAN (ring_of 3) 0x3000) = - 1 \<and>
   sint (V2header_getVLAN (ring_of 3) 0x4000) = - 1"
proof -
  have s: "Tp_status (packet_at (ring_of 3) (Packet (initV3Wrapper (ring_of 3) 0x1000)))
             AND StatusVlanValid \<noteq> 0"
    by (simp add: ring_of_views block_hdr_def pkt_first_def StatusVlanValid_def)
  have t: "uint (TpVlanTci (Tp_hv1 (packet_at (ring_of 3)
             (Packet (initV3Wrapper (ring_of 3) 0x1000))))) mod 4096 = 0xABC"
    by (simp add: ring_of_views block_hdr_def pkt_first_def)
  have u: "Tp_status (packet_at (ring_of 3) (Packet \<lparr>Block = 0x1000, Blockhdr = 0x1008, Packet = 0x1090, used = 1\<rparr>))
             AND StatusVlanValid = 0"
    by (simp add: ring_of_views block_hdr_def pkt_other_def StatusVlanValid_def)
  note a = getVLAN_by_variant [of "ring_of 3" "0x3000" "initV3Wrapper (ring_of 3) 0x1000"]
  note b = getVLAN_by_variant [of "ring_of 3" "0x4000" "\<lparr>Block = 0x1000, Blockhdr = 0x1008, Packet = 0x1090, used = 1\<rparr>"]
  have "sint (V3header_getVLAN (ring_of 3) (initV3Wrapper (ring_of 3) 0x1000)) =
        uint (TpVlanTci (Tp_hv1 (packet_at (ring_of 3)
          (Packet (initV3Wrapper (ring_of 3) 0x1000))))) mod 4096"
    using a s by blast
  then have 1: "sint (V3header_getVLAN (ring_of 3) (initV3Wrapper (ring_of 3) 0x1000)) = 0xABC"
    by (simp only: t)
  have 2: "V3header_getVLAN (ring_of 3) \<lparr>Block = 0x1000, Blockhdr = 0x1008, Packet = 0x1090, used = 1\<rparr> = - 1"
    using b u by blast
  have 3: "TpV3Hdr_getVLAN (ring_of 3) \<lparr>Block = 0x1000, Blockhdr = 0x1008, Packet = 0x1090, used = 1\<rparr> = - 1"
    using b u by blast
  have 4: "V1header_getVLAN (ring_of 3) 0x3000 = - 1" using a by blast
  have 5: "V2header_getVLAN (ring_of 3) 0x4000 = - 1" using b by blast
  show ?thesis
    using s u 1 by (simp add: 2 3 4 5)
qed

text \<open>
  The claim as stated fails for variant B: a header whose status has the bit \<open>0x10\<close> set
  and whose TCI is \<open>0x0ABC\<close> still gives -1, not \<open>0xABC\<close>.
\<close>

theorem getVLAN_variant_B_counterexample:
  "V2header.Status (v2_at (ring_of 3) 0x4000) AND 0x10 \<noteq> 0 \<and>
   uint (VlanTci (v2_at (ring_of 3) 0x4000) AND 0xfff) = 0xABC \<and>
   sint (V2header_getVLAN (ring_of 3) 0x4000) = - 1 \<and>
   sint (V2header_getVLAN (ring_of 3) 0x4000) \<noteq> uint (VlanTci (v2_at (ring_of 3) 0x4000) AND 0xfff)"
  by (simp add: V2header_getVLAN_def ring_of_views frame_v2_def)

section \<open>Single frames do not advance\<close>

text \<open>
  Claim C9. For every variant-A and every variant-B header, whatever its fields, \<open>next\<close>
  returns false, on the first call as on any other.
\<close>

theorem single_frame_next_false:
  "V1header_next m h = False \<and> V2header_next m h = False"
  by (simp add: V1header_next_def V2header_next_def)

section \<open>Timestamps\<close>

lemma sint_usec_scaled: "sint (ucast (u :: uint32) * 1000 :: 64 word) = uint u * 1000"
proof -
  have b: "uint u * 1000 < 4294967296000" using uint32_bound [of u] by linarith
  have n: "0 \<le> uint u * 1000" by simp
  have "uint (ucast u * 1000 :: 64 word) = uint u * 1000 mod 2 ^ 64"
    by (simp add: uint_word_ariths uint_ucast32)
  also have "\<dots> = uint u * 1000"
    using b n by (intro mod_pos_pos_trivial) simp_all
  finally have e: "uint (ucast u * 1000 :: 64 word) = uint u * 1000" .
  then have "uint (ucast u * 1000 :: 64 word) < 9223372036854775808" using b by linarith
  then have "sint (ucast u * 1000 :: 64 word) = uint (ucast u * 1000 :: 64 word)"
    by (rule sint_eq_uint)
  then show ?thesis by (simp only: e)
qed

lemma unix_nanos_time_Unix: "unix_nanos (time_Unix sec nsec) = sint sec * 1000000000 + sint nsec"
  by (simp add: unix_nanos_def time_Unix_def algebra_simps)

lemma time_Unix_cong:
  "sint sec = sint sec' \<Longrightarrow> sint nsec = sint nsec' \<Longrightarrow> time_Unix sec nsec = time_Unix sec' nsec'"
  by (simp add: time_Unix_def)

lemma V1header_getTime_nanos:
  "unix_nanos (V1header_getTime m a) =
     uint (V1header.Sec (v1_at m a)) * 1000000000 + uint (V1header.Usec (v1_at m a)) * 1000"
  by (simp only: V1header_getTime_def unix_nanos_time_Unix sint_ucast32 sint_usec_scaled)

lemma V2header_getTime_nanos:
  "unix_nanos (V2header_getTime m b) =
     uint (V2header.Sec (v2_at m b)) * 1000000000 + uint (Nsec (v2_at m b))"
  by (simp only: V2header_getTime_def unix_nanos_time_Unix sint_ucast32)

lemma V3header_getTime_nanos:
  "unix_nanos (V3header_getTime m w) =
     uint (Tp_sec (packet_at m (Packet w))) * 1000000000 + uint (Tp_nsec (packet_at m (Packet w)))"
  by (simp only: V3header_getTime_def unix_nanos_time_Unix sint_ucast32)

lemma getTime_V1_V2:
  assumes "V2header.Sec (v2_at m b) = V1header.Sec (v1_at m a)"
    and "uint (Nsec (v2_at m b)) = uint (V1header.Usec (v1_at m a)) * 1000"
  shows "V1header_getTime m a = V2header_getTime m b"
  unfolding V1header_getTime_def V2header_getTime_def
  by (rule time_Unix_cong) (simp_all only: assms sint_ucast32 sint_usec_scaled)

lemma getTime_V1_V3:
  assumes "Tp_sec (packet_at m (Packet w)) = V1header.Sec (v1_at m a)"
    and "uint (Tp_nsec (packet_at m (Packet w))) = uint (V1header.Usec (v1_at m a)) * 1000"
  shows "V1header_getTime m a = V3header_getTime m w"
  unfolding V1header_getTime_def V3header_getTime_def
  by (rule time_Unix_cong) (simp_all only: assms sint_ucast32 sint_usec_scaled)

text \<open>
  Claim C7. A variant-A header with seconds \<open>S\<close> and microseconds \<open>U\<close> and a variant-B
  header with seconds \<open>S\<close> and nanoseconds \<open>U * 1000\<close> have the same timestamp, and so has
  a variant-C packet with these seconds and nanoseconds. Variant A gives the instant
  \<open>S\<close> seconds and \<open>U * 1000\<close> nanoseconds after the epoch; variants B and C give their
  seconds and nanoseconds as they are.
\<close>

theorem getTime_A_equals_B:
  "(V2header.Sec (v2_at m b) = V1header.Sec (v1_at m a) \<and>
    uint (Nsec (v2_at m b)) = uint (V1header.Usec (v1_at m a)) * 1000 \<longrightarrow>
      V1header_getTime m a = V2header_getTime m b) \<and>
   (Tp_sec (packet_at m (Packet w)) = V1header.Sec (v1_at m a) \<and>
    uint (Tp_nsec (packet_at m (Packet w))) = uint (V1header.Usec (v1_at m a)) * 1000 \<longrightarrow>
      V1header_getTime m a = V3header_getTime m w) \<and>
   unix_nanos (V1header_getTime m a) =
     uint (V1header.Sec (v1_at m a)) * 1000000000 + uint (V1header.Usec (v1_at m a)) * 1000 \<and>
   unix_nanos (V2header_getTime m b) =
     uint (V2header.Sec (v2_at m b)) * 1000000000 + uint (Nsec (v2_at m b)) \<and>
   unix_nanos (V3header_getTime m w) =
     uint (Tp_sec (packet_at m (Packet w))) * 1000000000 +
     uint (Tp_nsec (packet_at m (Packet w)))"
proof (intro conjI impI)
  assume "V2header.Sec (v2_at m b) = V1header.Sec (v1_at m a) \<and>
          uint (Nsec (v2_at m b)) = uint (V1header.Usec (v1_at m a)) * 1000"
  then show "V1header_getTime m a = V2header_getTime m b"
    by (intro getTime_V1_V2) simp_all
next
  assume "Tp_sec (packet_at m (Packet w)) = V1header.Sec (v1_at m a) \<and>
          uint (Tp_nsec (packet_at m (Packet w))) = uint (V1header.Usec (v1_at m a)) * 1000"
  then show "V1header_getTime m a = V3header_getTime m w"
    by (intro getTime_V1_V3) simp_all
qed (rule V1header_getTime_nanos V2header_getTime_nanos V3header_getTime_nanos)+

theorem getTime_A_equals_B_witness:
  "V2header.Sec (v2_at (ring_of 3) 0x4000) = V1header.Sec (v1_at (ring_of 3) 0x3000) \<and>
   uint (Nsec (v2_at (ring_of 3) 0x4000)) = uint (V1header.Usec (v1_at (ring_of 3) 0x3000)) * 1000 \<and>
   Tp_sec (packet_at (ring_of 3) (Packet (initV3Wrapper (ring_of 3) 0x1000))) =
     V1header.Sec (v1_at (ring_of 3) 0x3000) \<and>
   uint (Tp_nsec (packet_at (ring_of 3) (Packet (initV3Wrapper (ring_of 3) 0x1000)))) =
     uint (V1header.Usec (v1_at (ring_of 3) 0x3000)) * 1000 \<and>
   V1header_getTime (ring_of 3) 0x3000 = V2header_getTime (ring_of 3) 0x4000 \<and>
   V1header_getTime (ring_of 3) 0x3000 =
     V3header_getTime (ring_of 3) (initV3Wrapper (ring_of 3) 0x1000) \<and>
   unix_nanos (V1header_getTime (ring_of 3) 0x3000) = 1700000000250000000"
proof -
  have h1: "V2header.Sec (v2_at (ring_of 3) 0x4000) = V1header.Sec (v1_at (ring_of 3) 0x3000) \<and>
    uint (Nsec (v2_at (ring_of 3) 0x4000)) = uint (V1header.Usec (v1_at (ring_of 3) 0x3000)) * 1000"
    by (simp add: ring_of_views frame_v1_def frame_v2_def)
  have h2: "Tp_sec (packet_at (ring_of 3) (Packet (initV3Wrapper (ring_of 3) 0x1000))) =
      V1header.Sec (v1_at (ring_of 3) 0x3000) \<and>
    uint (Tp_nsec (packet_at (ring_of 3) (Packet (initV3Wrapper (ring_of 3) 0x1000)))) =
      uint (V1header.Usec (v1_at (ring_of 3) 0x3000)) * 1000"
    by (simp add: ring_of_views frame_v1_def initV3Wrapper_def block_hdr_def pkt_first_def)
  note t = getTime_A_equals_B [of "ring_of 3" "0x4000" "0x3000" "initV3Wrapper (ring_of 3) 0x1000"]
  have 1: "V1header_getTime (ring_of 3) 0x3000 = V2header_getTime (ring_of 3) 0x4000"
    using t h1 by blast
  have 2: "V1header_getTime (ring_of 3) 0x3000 =
           V3header_getTime (ring_of 3) (initV3Wrapper (ring_of 3) 0x1000)"
    using t h2 by blast
  have "unix_nanos (V1header_getTime (ring_of 3) 0x3000) =
        uint (V1header.Sec (v1_at (ring_of 3) 0x3000)) * 1000000000 +
        uint (V1header.Usec (v1_at (ring_of 3) 0x3000)) * 1000"
    using t by blast
  then have 3: "unix_nanos (V1header_getTime (ring_of 3) 0x3000) = 1700000000250000000"
    by (simp add: ring_of_views frame_v1_def)
  from h1 h2 1 2 3 show ?thesis by blast
qed

section \<open>Releasing a frame or a block\<close>

lemma store32_outside: "outside a 4 x \<Longrightarrow> byte_at (store32 m a v) x = byte_at m x"
  by (auto simp add: store32_def outside_def)

lemma store64_outside: "outside a 8 x \<Longrightarrow> byte_at (store64 m a v) x = byte_at m x"
  by (auto simp add: store64_def outside_def)

lemma load32_store32_zero: "load32 (store32 m a 0) a = 0"
  by (simp add: load32_def store32_def)

lemma load64_store64_zero: "load64 (store64 m a 0) a = 0"
  by (simp add: load64_def store64_def)

text \<open>
  An interval of \<open>n\<close> bytes from \<open>p\<close> that does not hold the address \<open>b\<close>, and does not
  begin within the four bytes from \<open>b\<close>, holds none of them.
\<close>

lemma outside_within:
  assumes "outside b 4 p" and "outside p n b" and "unat k < n"
  shows "outside b 4 (p + k)"
  using assms unfolding outside_def by unat_arith


lemma packet_at_frame:
  assumes "\<And>k. unat k < 48 \<Longrightarrow> byte_at m' (p + k) = byte_at m (p + k)"
  shows "packet_at m' p = packet_at m p"
proof -
  have z: "byte_at m' p = byte_at m p" using assms [of 0] by simp
  show ?thesis
    by (simp add: packet_at_def loads z assms add.assoc)
qed

lemma V3header_clearStatus_packet:
  assumes "outside (Blockhdr w) 4 p" and "outside p 48 (Blockhdr w)"
  shows "packet_at (V3header_clearStatus m w) p = packet_at m p"
proof (rule packet_at_frame)
  fix k :: uintptr
  assume "unat k < 48"
  with assms have "outside (Blockhdr w) 4 (p + k)" by (rule outside_within)
  then show "byte_at (V3header_clearStatus m w) (p + k) = byte_at m (p + k)"
    unfolding V3header_clearStatus_def by (rule store32_outside)
qed

lemma V1header_clearStatus_fields:
  "V1header.Len (v1_at (V1header_clearStatus m h) h) = V1header.Len (v1_at m h) \<and>
   V1header.Snaplen (v1_at (V1header_clearStatus m h) h) = V1header.Snaplen (v1_at m h) \<and>
   V1header.Mac (v1_at (V1header_clearStatus m h) h) = V1header.Mac (v1_at m h) \<and>
   V1header.Net (v1_at (V1header_clearStatus m h) h) = V1header.Net (v1_at m h) \<and>
   V1header.Sec (v1_at (V1header_clearStatus m h) h) = V1header.Sec (v1_at m h) \<and>
   V1header.Usec (v1_at (V1header_clearStatus m h) h) = V1header.Usec (v1_at m h) \<and>
   V1header.Padding (v1_at (V1header_clearStatus m h) h) = V1header.Padding (v1_at m h)"
  by (simp add: V1header_clearStatus_def v1_at_def loads store64_def)

lemma V2header_clearStatus_fields:
  "V2header.Len (v2_at (V2header_clearStatus m h) h) = V2header.Len (v2_at m h) \<and>
   V2header.Snaplen (v2_at (V2header_clearStatus m h) h) = V2header.Snaplen (v2_at m h) \<and>
   V2header.Mac (v2_at (V2header_clearStatus m h) h) = V2header.Mac (v2_at m h) \<and>
   V2header.Net (v2_at (V2header_clearStatus m h) h) = V2header.Net (v2_at m h) \<and>
   V2header.Sec (v2_at (V2header_clearStatus m h) h) = V2header.Sec (v2_at m h) \<and>
   Nsec (v2_at (V2header_clearStatus m h) h) = Nsec (v2_at m h) \<and>
   VlanTci (v2_at (V2header_clearStatus m h) h) = VlanTci (v2_at m h) \<and>
   VlanTpid (v2_at (V2header_clearStatus m h) h) = VlanTpid (v2_at m h) \<and>
   V2header.Padding (v2_at (V2header_clearStatus m h) h) = V2header.Padding (v2_at m h)"
  by (simp add: V2header_clearStatus_def v2_at_def loads store32_def)

lemma V3header_clearStatus_fields:
  "NumPkts (blockhdr_at (V3header_clearStatus m w) (Blockhdr w)) =
     NumPkts (blockhdr_at m (Blockhdr w)) \<and>
   OffsetToFirstPkt (blockhdr_at (V3header_clearStatus m w) (Blockhdr w)) =
     OffsetToFirstPkt (blockhdr_at m (Blockhdr w)) \<and>
   BlkLen (blockhdr_at (V3header_clearStatus m w) (Blockhdr w)) =
     BlkLen (blockhdr_at m (Blockhdr w)) \<and>
   SeqNum (blockhdr_at (V3header_clearStatus m w) (Blockhdr w)) =
     SeqNum (blockhdr_at m (Blockhdr w)) \<and>
   TsFirstPkt (blockhdr_at (V3header_clearStatus m w) (Blockhdr w)) =
     TsFirstPkt (blockhdr_at m (Blockhdr w)) \<and>
   TsLastPkt (blockhdr_at (V3header_clearStatus m w) (Blockhdr w)) =
     TsLastPkt (blockhdr_at m (Blockhdr w))"
  by (simp add: V3header_clearStatus_def blockhdr_at_def loads store32_def)

text \<open>
  The views share the bytes they lie over: a packet whose \<open>Tp_nsec\<close> lies over the block's
  status word, eight bytes before \<open>Blockhdr\<close>, reads 0 there once the block is released.
\<close>

lemma V3header_clearStatus_overlapping_packet:
  "Tp_nsec (packet_at (V3header_clearStatus m w) (Blockhdr w - 8)) = 0"
  by (simp add: packet_at_def V3header_clearStatus_def load32_store32_zero)

text \<open>
  Claim C6. For each variant, \<open>clearStatus\<close> sets the status word to zero, so that
  \<open>getStatus\<close> then returns 0, and changes nothing else: every byte of the ring outside
  the status word (the 8 bytes at the header for variant A, the 4 bytes at the header
  for variant B, the 4 bytes at \<open>Blockhdr\<close> for variant C) is as before, and so are the
  other fields of the header. For variant C the wrapper is not written, and every packet
  of the ring that does not lie over the block's status word reads as before.
\<close>

theorem clearStatus_only_status:
  "(V1header_getStatus (V1header_clearStatus m h) h = 0 \<and>
    (\<forall>x. outside h 8 x \<longrightarrow> byte_at (V1header_clearStatus m h) x = byte_at m x) \<and>
    V1header.Len (v1_at (V1header_clearStatus m h) h) = V1header.Len (v1_at m h) \<and>
    V1header.Snaplen (v1_at (V1header_clearStatus m h) h) = V1header.Snaplen (v1_at m h) \<and>
    V1header.Mac (v1_at (V1header_clearStatus m h) h) = V1header.Mac (v1_at m h) \<and>
    V1header.Net (v1_at (V1header_clearStatus m h) h) = V1header.Net (v1_at m h) \<and>
    V1header.Sec (v1_at (V1header_clearStatus m h) h) = V1header.Sec (v1_at m h) \<and>
    V1header.Usec (v1_at (V1header_clearStatus m h) h) = V1header.Usec (v1_at m h) \<and>
    V1header.Padding (v1_at (V1header_clearStatus m h) h) = V1header.Padding (v1_at m h)) \<and>
   (V2header_getStatus (V2header_clearStatus m h) h = 0 \<and>
    (\<forall>x. outside h 4 x \<longrightarrow> byte_at (V2header_clearStatus m h) x = byte_at m x) \<and>
    V2header.Len (v2_at (V2header_clearStatus m h) h) = V2header.Len (v2_at m h) \<and>
    V2header.Snaplen (v2_at (V2header_clearStatus m h) h) = V2header.Snaplen (v2_at m h) \<and>
    V2header.Mac (v2_at (V2header_clearStatus m h) h) = V2header.Mac (v2_at m h) \<and>
    V2header.Net (v2_at (V2header_clearStatus m h) h) = V2header.Net (v2_at m h) \<and>
    V2header.Sec (v2_at (V2header_clearStatus m h) h) = V2header.Sec (v2_at m h) \<and>
    Nsec (v2_at (V2header_clearStatus m h) h) = Nsec (v2_at m h) \<and>
    VlanTci (v2_at (V2header_clearStatus m h) h) = VlanTci (v2_at m h) \<and>
    VlanTpid (v2_at (V2header_clearStatus m h) h) = VlanTpid (v2_at m h) \<and>
    V2header.Padding (v2_at (V2header_clearStatus m h) h) = V2header.Padding (v2_at m h)) \<and>
   (V3header_getStatus (V3header_clearStatus m w) w = 0 \<and>
    (\<forall>x. outside (Blockhdr w) 4 x \<longrightarrow> byte_at (V3header_clearStatus m w) x = byte_at m x) \<and>
    NumPkts (blockhdr_at (V3header_clearStatus m w) (Blockhdr w)) =
      NumPkts (blockhdr_at m (Blockhdr w)) \<and>
    OffsetToFirstPkt (blockhdr_at (V3header_clearStatus m w) (Blockhdr w)) =
      OffsetToFirstPkt (blockhdr_at m (Blockhdr w)) \<and>
    BlkLen (blockhdr_at (V3header_clearStatus m w) (Blockhdr w)) =
      BlkLen (blockhdr_at m (Blockhdr w)) \<and>
    SeqNum (blockhdr_at (V3header_clearStatus m w) (Blockhdr w)) =
      SeqNum (blockhdr_at m (Blockhdr w)) \<and>
    TsFirstPkt (blockhdr_at (V3header_clearStatus m w) (Blockhdr w)) =
      TsFirstPkt (blockhdr_at m (Blockhdr w)) \<and>
    TsLastPkt (blockhdr_at (V3header_clearStatus m w) (Blockhdr w)) =
      TsLastPkt (blockhdr_at m (Blockhdr w)) \<and>
    (\<forall>p. outside (Blockhdr w) 4 p \<and> outside p 48 (Blockhdr w) \<longrightarrow>
       packet_at (V3header_clearStatus m w) p = packet_at m p))"
proof -
  have a: "V1header_getStatus (V1header_clearStatus m h) h = 0"
    by (simp add: V1header_getStatus_def V1header_clearStatus_def v1_at_def load64_store64_zero)
  have b: "\<forall>x. outside h 8 x \<longrightarrow> byte_at (V1header_clearStatus m h) x = byte_at m x"
    by (simp add: V1header_clearStatus_def store64_outside)
  have c: "V2header_getStatus (V2header_clearStatus m h) h = 0"
    by (simp add: V2header_getStatus_def V2header_clearStatus_def v2_at_def load32_store32_zero)
  have d: "\<forall>x. outside h 4 x \<longrightarrow> byte_at (V2header_clearStatus m h) x = byte_at m x"
    by (simp add: V2header_clearStatus_def store32_outside)
  have e: "V3header_getStatus (V3header_clearStatus m w) w = 0"
    by (simp add: V3header_getStatus_def V3header_clearStatus_def blockhdr_at_def
        load32_store32_zero)
  have f: "\<forall>x. outside (Blockhdr w) 4 x \<longrightarrow>
             byte_at (V3header_clearStatus m w) x = byte_at m x"
    by (simp add: V3header_clearStatus_def store32_outside)
  have g: "\<forall>p. outside (Blockhdr w) 4 p \<and> outside p 48 (Blockhdr w) \<longrightarrow>
             packet_at (V3header_clearStatus m w) p = packet_at m p"
    by (simp add: V3header_clearStatus_packet)
  from a b c d e f g
    V1header_clearStatus_fields [of m h] V2header_clearStatus_fields [of m h]
    V3header_clearStatus_fields [of m w]
  show ?thesis by blast
qed

theorem clearStatus_only_status_witness:
  "V1header_getStatus (ring_of 3) 0x3000 = 1 \<and>
   V1header_getStatus (V1header_clearStatus (ring_of 3) 0x3000) 0x3000 = 0 \<and>
   outside 0x3000 8 0x3008 \<and>
   byte_at (V1header_clearStatus (ring_of 3) 0x3000) 0x3008 = byte_at (ring_of 3) 0x3008 \<and>
   V2header_getStatus (ring_of 3) 0x4000 = 0x11 \<and>
   V2header_getStatus (V2header_clearStatus (ring_of 3) 0x4000) 0x4000 = 0 \<and>
   outside 0x4000 4 0x4004 \<and>
   byte_at (V2header_clearStatus (ring_of 3) 0x4000) 0x4004 = byte_at (ring_of 3) 0x4004 \<and>
   V3header_getStatus (ring_of 3) (initV3Wrapper (ring_of 3) 0x1000) = 1 \<and>
   V3header_getStatus (V3header_clearStatus (ring_of 3) (initV3Wrapper (ring_of 3) 0x1000))
     (initV3Wrapper (ring_of 3) 0x1000) = 0 \<and>
   outside (Blockhdr (initV3Wrapper (ring_of 3) 0x1000)) 4 0x100C \<and>
   byte_at (V3header_clearStatus (ring_of 3) (initV3Wrapper (ring_of 3) 0x1000)) 0x100C =
     byte_at (ring_of 3) 0x100C \<and>
   outside (Blockhdr (initV3Wrapper (ring_of 3) 0x1000)) 4 0x1030 \<and>
   outside 0x1030 48 (Blockhdr (initV3Wrapper (ring_of 3) 0x1000)) \<and>
   packet_at (V3header_clearStatus (ring_of 3) (initV3Wrapper (ring_of 3) 0x1000)) 0x1030 =
     pkt_first"
proof -
  note t = clearStatus_only_status [of "ring_of 3" "0x3000" "initV3Wrapper (ring_of 3) 0x1000"]
  note u = clearStatus_only_status [of "ring_of 3" "0x4000" "initV3Wrapper (ring_of 3) 0x1000"]
  have o1: "outside 0x3000 8 0x3008" and o2: "outside 0x4000 4 0x4004"
    by (simp_all add: outside_def)
  have o3: "outside (Blockhdr (initV3Wrapper (ring_of 3) 0x1000)) 4 0x100C"
    and o4: "outside (Blockhdr (initV3Wrapper (ring_of 3) 0x1000)) 4 0x1030"
    and o5: "outside 0x1030 48 (Blockhdr (initV3Wrapper (ring_of 3) 0x1000))"
    by (simp_all add: outside_def ring_of_init)
  have s: "V1header_getStatus (ring_of 3) 0x3000 = 1 \<and>
           V2header_getStatus (ring_of 3) 0x4000 = 0x11 \<and>
           V3header_getStatus (ring_of 3) (initV3Wrapper (ring_of 3) 0x1000) = 1"
    by (simp add: V1header_getStatus_def V2header_getStatus_def V3header_getStatus_def
        ring_of_init ring_of_v1 ring_of_v2 ring_of_blockhdr
        frame_v1_def frame_v2_def block_hdr_def)
  have p: "packet_at (V3header_clearStatus (ring_of 3) (initV3Wrapper (ring_of 3) 0x1000))
             0x1030 = packet_at (ring_of 3) 0x1030"
    using t o4 o5 by blast
  show ?thesis
    using t u o1 o2 o3 o4 o5 s p ring_of_pkt_first [of 3] by metis
qed

section \<open>Iterating over a block\<close>

lemma V3header_next_used: "used (snd (V3header_next m w)) = used w + 1"
  by (simp add: V3header_next_def Let_def)

lemma V3header_next_Blockhdr:
  "Blockhdr (snd (V3header_next m w)) = Blockhdr w \<and> Block (snd (V3header_next m w)) = Block w"
  by (simp add: V3header_next_def Let_def)

lemma V3header_next_false_iff:
  "(\<not> fst (V3header_next m w)) = (NumPkts (blockhdr_at m (Blockhdr w)) \<le> used w + 1)"
  by (simp add: V3header_next_def Let_def)

lemma V3header_next_more:
  assumes "used w + 1 < NumPkts (blockhdr_at m (Blockhdr w))"
  shows "V3header_next m w =
           (True, w\<lparr>used := used w + 1,
                    Packet := Packet w +
                      (if TpNextOffset (packet_at m (Packet w)) \<noteq> 0
                       then ucast (TpNextOffset (packet_at m (Packet w)))
                       else tpAlign (ucast (Tp_snaplen (packet_at m (Packet w))) +
                                     ucast (Tp_mac (packet_at m (Packet w)))))\<rparr>)"
  using assms by (simp add: V3header_next_def Let_def not_le [symmetric])

lemma word_succ_le: "(x :: uint32) < n \<Longrightarrow> x + 1 \<le> n"
  by unat_arith

lemma word_le_succ: "(x :: uint32) < n \<Longrightarrow> x \<le> x + 1"
  by unat_arith


lemma sint_snaplen_plus_mac:
  "sint (ucast (s :: uint32) + ucast (c :: uint16) :: 64 word) = uint s + uint c"
proof -
  have b: "uint s + uint c < 4295032832"
    using uint32_bound [of s] uint16_bound [of c] by linarith
  have n: "0 \<le> uint s + uint c" by simp
  have "uint (ucast s + ucast c :: 64 word) = (uint s + uint c) mod 2 ^ 64"
    by (simp add: uint_word_ariths uint_ucast32 uint_ucast16)
  also have "\<dots> = uint s + uint c"
    using b n by (intro mod_pos_pos_trivial) simp_all
  finally have e: "uint (ucast s + ucast c :: 64 word) = uint s + uint c" .
  then have "uint (ucast s + ucast c :: 64 word) < 9223372036854775808" using b by linarith
  then have "sint (ucast s + ucast c :: 64 word) = uint (ucast s + ucast c :: 64 word)"
    by (rule sint_eq_uint)
  then show ?thesis by (simp only: e)
qed

lemma tpAlign_snaplen_plus_mac:
  "sint (tpAlign (ucast (s :: uint32) + ucast (c :: uint16))) = (uint s + uint c + 15) div 16 * 16"
proof -
  have b: "uint s + uint c < 4295032832"
    using uint32_bound [of s] uint16_bound [of c] by linarith
  have n: "0 \<le> uint s + uint c" by simp
  have p: "0 \<le> sint (ucast s + ucast c :: 64 word)"
    unfolding sint_snaplen_plus_mac using n by linarith
  have q: "sint (ucast s + ucast c :: 64 word) \<le> 9223372036854775792"
    unfolding sint_snaplen_plus_mac using b by linarith
  have "sint (tpAlign (ucast s + ucast c)) = (sint (ucast s + ucast c :: 64 word) + 15) div 16 * 16"
    using p q by (rule tpAlign_sint)
  then show ?thesis by (simp only: sint_snaplen_plus_mac)
qed

text \<open>
  Claim C2. Over a block whose packet count is 3, three calls of \<open>next\<close> from a fresh
  wrapper return true, true and false; over a block whose packet count is 1 the first
  call returns false. A fresh wrapper has cursor 0, each call adds one to the cursor, and
  a call returns false exactly when the cursor it has incremented is at or past the
  block's packet count.
\<close>

theorem V3header_next_until_count:
  "(used w = 0 \<and> NumPkts (blockhdr_at m (Blockhdr w)) = 3 \<longrightarrow>
      fst (V3header_next m w) \<and>
      fst (V3header_next m (snd (V3header_next m w))) \<and>
      \<not> fst (V3header_next m (snd (V3header_next m (snd (V3header_next m w))))) \<and>
      used (snd (V3header_next m (snd (V3header_next m (snd (V3header_next m w)))))) = 3) \<and>
   (used w = 0 \<and> NumPkts (blockhdr_at m (Blockhdr w)) = 1 \<longrightarrow> \<not> fst (V3header_next m w)) \<and>
   (\<not> fst (V3header_next m w)) =
     (NumPkts (blockhdr_at m (Blockhdr w)) \<le> used (snd (V3header_next m w))) \<and>
   used (snd (V3header_next m w)) = used w + 1 \<and>
   used (initV3Wrapper m block) = 0"
proof (intro conjI impI)
  assume a: "used w = 0 \<and> NumPkts (blockhdr_at m (Blockhdr w)) = 3"
  define w1 where "w1 = snd (V3header_next m w)"
  define w2 where "w2 = snd (V3header_next m w1)"
  define w3 where "w3 = snd (V3header_next m w2)"
  have u1: "used w1 = 1" using a by (simp add: w1_def V3header_next_used)
  have u2: "used w2 = 2" using u1 by (simp add: w2_def V3header_next_used)
  have u3: "used w3 = 3" using u2 by (simp add: w3_def V3header_next_used)
  have b1: "NumPkts (blockhdr_at m (Blockhdr w1)) = 3"
    using a by (simp add: w1_def V3header_next_Blockhdr)
  have b2: "NumPkts (blockhdr_at m (Blockhdr w2)) = 3"
    using b1 by (simp add: w2_def V3header_next_Blockhdr)
  have "\<not> (\<not> fst (V3header_next m w))"
    using a by (simp only: V3header_next_false_iff) (simp add: word_le_nat_alt)
  then show "fst (V3header_next m w)" by simp
  have "\<not> (\<not> fst (V3header_next m w1))"
    using u1 b1 by (simp only: V3header_next_false_iff) (simp add: word_le_nat_alt)
  then show "fst (V3header_next m (snd (V3header_next m w)))" by (simp add: w1_def)
  have "\<not> fst (V3header_next m w2)"
    using u2 b2 by (simp only: V3header_next_false_iff) (simp add: word_le_nat_alt)
  then show "\<not> fst (V3header_next m (snd (V3header_next m (snd (V3header_next m w)))))"
    by (simp add: w2_def w1_def)
  show "used (snd (V3header_next m (snd (V3header_next m (snd (V3header_next m w)))))) = 3"
    using u3 by (simp add: w3_def w2_def w1_def)
next
  assume "used w = 0 \<and> NumPkts (blockhdr_at m (Blockhdr w)) = 1"
  then show "\<not> fst (V3header_next m w)"
    by (simp only: V3header_next_false_iff) (simp add: word_le_nat_alt)
next
  show "(\<not> fst (V3header_next m w)) =
        (NumPkts (blockhdr_at m (Blockhdr w)) \<le> used (snd (V3header_next m w)))"
    by (simp only: V3header_next_false_iff V3header_next_used)
  show "used (snd (V3header_next m w)) = used w + 1" by (rule V3header_next_used)
  show "used (initV3Wrapper m block) = 0" by (simp add: initV3Wrapper_def Let_def)
qed

theorem V3header_next_until_count_witness:
  "used (initV3Wrapper (ring_of 3) 0x1000) = 0 \<and>
   NumPkts (blockhdr_at (ring_of 3) (Blockhdr (initV3Wrapper (ring_of 3) 0x1000))) = 3 \<and>
   fst (V3header_next (ring_of 3) (initV3Wrapper (ring_of 3) 0x1000)) \<and>
   fst (V3header_next (ring_of 3)
         (snd (V3header_next (ring_of 3) (initV3Wrapper (ring_of 3) 0x1000)))) \<and>
   \<not> fst (V3header_next (ring_of 3)
           (snd (V3header_next (ring_of 3)
             (snd (V3header_next (ring_of 3) (initV3Wrapper (ring_of 3) 0x1000)))))) \<and>
   used (initV3Wrapper (ring_of 1) 0x1000) = 0 \<and>
   NumPkts (blockhdr_at (ring_of 1) (Blockhdr (initV3Wrapper (ring_of 1) 0x1000))) = 1 \<and>
   \<not> fst (V3header_next (ring_of 1) (initV3Wrapper (ring_of 1) 0x1000))"
proof -
  have h3: "used (initV3Wrapper (ring_of 3) 0x1000) = 0 \<and>
            NumPkts (blockhdr_at (ring_of 3) (Blockhdr (initV3Wrapper (ring_of 3) 0x1000))) = 3"
    by (simp add: ring_of_views block_hdr_def)
  have h1: "used (initV3Wrapper (ring_of 1) 0x1000) = 0 \<and>
            NumPkts (blockhdr_at (ring_of 1) (Blockhdr (initV3Wrapper (ring_of 1) 0x1000))) = 1"
    by (simp add: ring_of_views block_hdr_def)
  show ?thesis
    using h3 h1
      V3header_next_until_count [of "initV3Wrapper (ring_of 3) 0x1000" "ring_of 3"]
      V3header_next_until_count [of "initV3Wrapper (ring_of 1) 0x1000" "ring_of 1"]
    by blast
qed

text \<open>
  Claim C3. When the cursor \<open>next\<close> has incremented is still below the block's packet
  count, \<open>next\<close> returns true and moves \<open>Packet\<close> to the current packet's address plus
  its \<open>TpNextOffset\<close> when that field is not 0, and otherwise to the current packet's
  address plus \<open>tpAlign(Tp_snaplen + Tp_mac)\<close>, which is \<open>Tp_snaplen + Tp_mac\<close> rounded up
  to a multiple of 16; addresses are 64-bit words. The pointers to the block and to its
  header stay.
\<close>

theorem V3header_next_repositions:
  "used w + 1 < NumPkts (blockhdr_at m (Blockhdr w)) \<longrightarrow>
     fst (V3header_next m w) \<and>
     (TpNextOffset (packet_at m (Packet w)) \<noteq> 0 \<longrightarrow>
        Packet (snd (V3header_next m w)) =
          Packet w + ucast (TpNextOffset (packet_at m (Packet w)))) \<and>
     (TpNextOffset (packet_at m (Packet w)) = 0 \<longrightarrow>
        Packet (snd (V3header_next m w)) =
          Packet w + tpAlign (ucast (Tp_snaplen (packet_at m (Packet w))) +
                              ucast (Tp_mac (packet_at m (Packet w))))) \<and>
     sint (tpAlign (ucast (Tp_snaplen (packet_at m (Packet w))) +
                    ucast (Tp_mac (packet_at m (Packet w))))) =
       (uint (Tp_snaplen (packet_at m (Packet w))) +
        uint (Tp_mac (packet_at m (Packet w))) + 15) div 16 * 16 \<and>
     Block (snd (V3header_next m w)) = Block w \<and>
     Blockhdr (snd (V3header_next m w)) = Blockhdr w"
proof
  assume a: "used w + 1 < NumPkts (blockhdr_at m (Blockhdr w))"
  note e = V3header_next_more [OF a]
  have 1: "fst (V3header_next m w)" by (simp add: e)
  have 2: "TpNextOffset (packet_at m (Packet w)) \<noteq> 0 \<longrightarrow>
        Packet (snd (V3header_next m w)) =
          Packet w + ucast (TpNextOffset (packet_at m (Packet w)))"
    by (simp add: e)
  have 3: "TpNextOffset (packet_at m (Packet w)) = 0 \<longrightarrow>
        Packet (snd (V3header_next m w)) =
          Packet w + tpAlign (ucast (Tp_snaplen (packet_at m (Packet w))) +
                              ucast (Tp_mac (packet_at m (Packet w))))"
    by (simp add: e)
  have 4: "Block (snd (V3header_next m w)) = Block w \<and>
           Blockhdr (snd (V3header_next m w)) = Blockhdr w"
    by (simp add: V3header_next_Blockhdr)
  from 1 2 3 4 tpAlign_snaplen_plus_mac
  show "fst (V3header_next m w) \<and>
     (TpNextOffset (packet_at m (Packet w)) \<noteq> 0 \<longrightarrow>
        Packet (snd (V3header_next m w)) =
          Packet w + ucast (TpNextOffset (packet_at m (Packet w)))) \<and>
     (TpNextOffset (packet_at m (Packet w)) = 0 \<longrightarrow>
        Packet (snd (V3header_next m w)) =
          Packet w + tpAlign (ucast (Tp_snaplen (packet_at m (Packet w))) +
                              ucast (Tp_mac (packet_at m (Packet w))))) \<and>
     sint (tpAlign (ucast (Tp_snaplen (packet_at m (Packet w))) +
                    ucast (Tp_mac (packet_at m (Packet w))))) =
       (uint (Tp_snaplen (packet_at m (Packet w))) +
        uint (Tp_mac (packet_at m (Packet w))) + 15) div 16 * 16 \<and>
     Block (snd (V3header_next m w)) = Block w \<and>
     Blockhdr (snd (V3header_next m w)) = Blockhdr w"
    by blast
qed


theorem V3header_next_repositions_witness:
  "used (initV3Wrapper (ring_of 3) 0x1000) + 1
     < NumPkts (blockhdr_at (ring_of 3) (Blockhdr (initV3Wrapper (ring_of 3) 0x1000))) \<and>
   TpNextOffset (packet_at (ring_of 3) (Packet (initV3Wrapper (ring_of 3) 0x1000))) \<noteq> 0 \<and>
   Packet (initV3Wrapper (ring_of 3) 0x1000) = 0x1030 \<and>
   fst (V3header_next (ring_of 3) (initV3Wrapper (ring_of 3) 0x1000)) \<and>
   Packet (snd (V3header_next (ring_of 3) (initV3Wrapper (ring_of 3) 0x1000))) = 0x1090 \<and>
   used \<lparr>Block = 0x1000, Blockhdr = 0x1008, Packet = 0x1090, used = 1\<rparr> + 1
     < NumPkts (blockhdr_at (ring_of 3) 0x1008) \<and>
   TpNextOffset (packet_at (ring_of 3) 0x1090) = 0 \<and>
   fst (V3header_next (ring_of 3) \<lparr>Block = 0x1000, Blockhdr = 0x1008, Packet = 0x1090, used = 1\<rparr>) \<and>
   Packet (snd (V3header_next (ring_of 3)
     \<lparr>Block = 0x1000, Blockhdr = 0x1008, Packet = 0x1090, used = 1\<rparr>)) = 0x1120"
proof -
  define w0 where "w0 = initV3Wrapper (ring_of 3) 0x1000"
  define w1 :: V3header where "w1 = \<lparr>Block = 0x1000, Blockhdr = 0x1008, Packet = 0x1090, used = 1\<rparr>"
  have p0: "Packet w0 = 0x1030"
    by (simp add: w0_def ring_of_views block_hdr_def)
  have a0: "used w0 + 1 < NumPkts (blockhdr_at (ring_of 3) (Blockhdr w0))"
    by (simp add: w0_def ring_of_views block_hdr_def word_less_nat_alt)
  have o0: "TpNextOffset (packet_at (ring_of 3) (Packet w0)) = 96"
    by (simp add: p0) (simp add: ring_of_views pkt_first_def)
  have a1: "used w1 + 1 < NumPkts (blockhdr_at (ring_of 3) (Blockhdr w1))"
    by (simp add: w1_def ring_of_views block_hdr_def word_less_nat_alt)
  have o1: "TpNextOffset (packet_at (ring_of 3) (Packet w1)) = 0"
    by (simp add: w1_def ring_of_views pkt_other_def)
  have s1: "tpAlign (ucast (Tp_snaplen (packet_at (ring_of 3) (Packet w1))) +
                     ucast (Tp_mac (packet_at (ring_of 3) (Packet w1)))) = 144"
    by (simp add: w1_def ring_of_views pkt_other_def tpAlign_def tpacketAlignment_def)
  note t0 = V3header_next_repositions [of w0 "ring_of 3"]
  note t1 = V3header_next_repositions [of w1 "ring_of 3"]
  have r0: "fst (V3header_next (ring_of 3) w0)" using t0 a0 by blast
  have "Packet (snd (V3header_next (ring_of 3) w0)) =
        Packet w0 + ucast (TpNextOffset (packet_at (ring_of 3) (Packet w0)))"
    using t0 a0 o0 by simp
  then have q0: "Packet (snd (V3header_next (ring_of 3) w0)) = 0x1090"
    unfolding o0 by (simp add: p0)
  have r1: "fst (V3header_next (ring_of 3) w1)" using t1 a1 by blast
  have "Packet (snd (V3header_next (ring_of 3) w1)) =
        Packet w1 + tpAlign (ucast (Tp_snaplen (packet_at (ring_of 3) (Packet w1))) +
                             ucast (Tp_mac (packet_at (ring_of 3) (Packet w1))))"
    using t1 a1 o1 by blast
  then have q1: "Packet (snd (V3header_next (ring_of 3) w1)) = 0x1120"
    by (simp only: s1) (simp add: w1_def)
  have n0: "TpNextOffset (packet_at (ring_of 3) (Packet w0)) \<noteq> 0" by (simp add: o0)
  have b1: "Blockhdr w1 = 0x1008" and c1: "Packet w1 = 0x1090" by (simp_all add: w1_def)
  show ?thesis
    using a0 n0 p0 r0 q0 a1 o1 r1 q1
    unfolding b1 c1 unfolding w0_def w1_def by blast
qed

lemma next_calls_bounds:
  assumes "used w < NumPkts (blockhdr_at m (Blockhdr w))"
  shows "used w \<le> used (next_calls m w n) \<and>
         used (next_calls m w n) \<le> NumPkts (blockhdr_at m (Blockhdr w)) \<and>
         used (next_calls m w n) \<le> used (next_calls m w (Suc n)) \<and>
         Blockhdr (next_calls m w n) = Blockhdr w"
  using assms
proof (induction n arbitrary: w)
  case 0
  have "next_calls m w (Suc 0) = snd (V3header_next m w)"
    by (simp add: case_prod_beta)
  then have "used (next_calls m w (Suc 0)) = used w + 1"
    by (simp only: V3header_next_used)
  moreover have "used w \<le> used w + 1" using "0.prems" by (rule word_le_succ)
  moreover have "used w \<le> NumPkts (blockhdr_at m (Blockhdr w))"
    using "0.prems" by simp
  ultimately show ?case by simp
next
  case (Suc n)
  define w' where "w' = snd (V3header_next m w)"
  have u: "used w' = used w + 1" by (simp add: w'_def V3header_next_used)
  have b: "Blockhdr w' = Blockhdr w" by (simp add: w'_def V3header_next_Blockhdr)
  have le: "used w \<le> used w'" unfolding u using Suc.prems by (rule word_le_succ)
  have bound: "used w' \<le> NumPkts (blockhdr_at m (Blockhdr w))"
    unfolding u using Suc.prems by (rule word_succ_le)
  show ?case
  proof (cases "fst (V3header_next m w)")
    case True
    then have lt: "used w' < NumPkts (blockhdr_at m (Blockhdr w'))"
      using V3header_next_false_iff [of m w] by (simp add: u b not_le)
    have s1: "next_calls m w (Suc n) = next_calls m w' n"
      using True by (simp add: w'_def case_prod_beta)
    have s2: "next_calls m w (Suc (Suc n)) = next_calls m w' (Suc n)"
      using True by (simp add: w'_def case_prod_beta)
    note ih = Suc.IH [OF lt, unfolded b]
    have "used w \<le> used (next_calls m w' n)" using le ih by (meson order_trans)
    then show ?thesis unfolding s1 s2 using ih by blast
  next
    case False
    then have s1: "next_calls m w (Suc n) = w'"
      by (simp add: w'_def case_prod_beta)
    from False have s2: "next_calls m w (Suc (Suc n)) = w'"
      by (simp add: w'_def case_prod_beta)
    show ?thesis unfolding s1 s2 using le bound b by blast
  qed
qed

lemma ring_of_three_calls:
  "next_calls (ring_of 3) (initV3Wrapper (ring_of 3) 0x1000) 5 =
     \<lparr>Block = 0x1000, Blockhdr = 0x1008, Packet = 0x1120, used = 3\<rparr>"
proof -
  have s1: "V3header_next (ring_of 3) \<lparr>Block = 0x1000, Blockhdr = 0x1008, Packet = 0x1030, used = 0\<rparr> =
            (True, \<lparr>Block = 0x1000, Blockhdr = 0x1008, Packet = 0x1090, used = 1\<rparr>)"
    by (simp add: V3header_next_def Let_def ring_of_views block_hdr_def pkt_first_def
        word_le_nat_alt)
  have s2: "V3header_next (ring_of 3) \<lparr>Block = 0x1000, Blockhdr = 0x1008, Packet = 0x1090, used = 1\<rparr> =
            (True, \<lparr>Block = 0x1000, Blockhdr = 0x1008, Packet = 0x1120, used = 2\<rparr>)"
    by (simp add: V3header_next_def Let_def ring_of_views block_hdr_def pkt_other_def
        tpAlign_def tpacketAlignment_def word_le_nat_alt)
  have s3: "V3header_next (ring_of 3) \<lparr>Block = 0x1000, Blockhdr = 0x1008, Packet = 0x1120, used = 2\<rparr> =
            (False, \<lparr>Block = 0x1000, Blockhdr = 0x1008, Packet = 0x1120, used = 3\<rparr>)"
    by (simp add: V3header_next_def Let_def ring_of_views block_hdr_def word_le_nat_alt)
  have five: "(5 :: nat) = Suc (Suc (Suc (Suc (Suc 0))))" by simp
  show ?thesis
    by (simp only: five next_calls.simps ring_of_init s1 s2 s3 Let_def prod.case if_True if_False)
qed

text \<open>
  Claim C8, as amended. From a wrapper whose cursor is below the block's packet count
  (a fresh wrapper, whose cursor is 0, over a block of at least one packet), as long as
  \<open>next\<close> is not called again after it has returned false, the cursor never decreases
  from one call to the next and never exceeds the block's packet count.
\<close>

theorem cursor_monotone_and_bounded:
  "used w < NumPkts (blockhdr_at m (Blockhdr w)) \<longrightarrow>
     used (next_calls m w n) \<le> used (next_calls m w (Suc n)) \<and>
     used (next_calls m w n) \<le> NumPkts (blockhdr_at m (Blockhdr w))"
  using next_calls_bounds [of w m n] by blast

theorem cursor_monotone_and_bounded_witness:
  "used (initV3Wrapper (ring_of 3) 0x1000)
     < NumPkts (blockhdr_at (ring_of 3) (Blockhdr (initV3Wrapper (ring_of 3) 0x1000))) \<and>
   used (next_calls (ring_of 3) (initV3Wrapper (ring_of 3) 0x1000) 5) = 3 \<and>
   used (next_calls (ring_of 3) (initV3Wrapper (ring_of 3) 0x1000) 5)
     \<le> used (next_calls (ring_of 3) (initV3Wrapper (ring_of 3) 0x1000) (Suc 5)) \<and>
   used (next_calls (ring_of 3) (initV3Wrapper (ring_of 3) 0x1000) 5)
     \<le> NumPkts (blockhdr_at (ring_of 3) (Blockhdr (initV3Wrapper (ring_of 3) 0x1000)))"
proof -
  have h: "used (initV3Wrapper (ring_of 3) 0x1000)
     < NumPkts (blockhdr_at (ring_of 3) (Blockhdr (initV3Wrapper (ring_of 3) 0x1000)))"
    by (simp add: ring_of_views block_hdr_def)
  have v: "used (next_calls (ring_of 3) (initV3Wrapper (ring_of 3) 0x1000) 5) = 3"
    by (simp add: ring_of_three_calls)
  show ?thesis
    using h v cursor_monotone_and_bounded [of "initV3Wrapper (ring_of 3) 0x1000" "ring_of 3" 5]
    by blast
qed

text \<open>
  The claim as stated fails on an empty block: over a block whose packet count is 0 the
  first call of \<open>next\<close> on a fresh wrapper, before any call has returned false, leaves
  the cursor at 1, above the count.
\<close>

theorem cursor_exceeds_empty_block_counterexample:
  "used (initV3Wrapper (ring_of 0) 0x1000) = 0 \<and>
   NumPkts (blockhdr_at (ring_of 0) (Blockhdr (initV3Wrapper (ring_of 0) 0x1000))) = 0 \<and>
   used (snd (V3header_next (ring_of 0) (initV3Wrapper (ring_of 0) 0x1000))) = 1 \<and>
   \<not> used (snd (V3header_next (ring_of 0) (initV3Wrapper (ring_of 0) 0x1000)))
       \<le> NumPkts (blockhdr_at (ring_of 0) (Blockhdr (initV3Wrapper (ring_of 0) 0x1000)))"
  by (simp add: V3header_next_def ring_of_views block_hdr_def Let_def word_le_nat_alt)

end
